theory Spec2Isabelle
  imports Main "HOL-Library.AList"
begin

section \<open>Strings and JSON values\<close>

text \<open>
  A JavaScript string is modelled as a \<^typ>\<open>string\<close>: each \<^typ>\<open>char\<close> is one code unit
  below 256. Every string function below is exact on such strings.
\<close>

definition is_js_whitespace :: "char \<Rightarrow> bool" where
  \<comment> \<open>the members of the ECMAScript WhiteSpace and LineTerminator sets below 256\<close>
  "is_js_whitespace c \<longleftrightarrow>
     c = CHR 0x09 \<or> c = CHR 0x0A \<or> c = CHR 0x0B \<or> c = CHR 0x0C \<or> c = CHR 0x0D
     \<or> c = CHR 0x20 \<or> c = CHR 0xA0"

definition trim :: "string \<Rightarrow> string" where
  \<comment> \<open>\<open>String.prototype.trim\<close>\<close>
  "trim s = rev (dropWhile is_js_whitespace (rev (dropWhile is_js_whitespace s)))"

text \<open>
  JSON values as \<open>JSON.parse\<close> produces them; a property read that yields \<open>undefined\<close> is
  \<open>None\<close> at the place of the read. Numbers are restricted to the integers of magnitude
  below \<open>2\<^sup>5\<^sup>3\<close>, which JavaScript represents exactly and prints in full.
\<close>

datatype json =
    JNull
  | JBool bool
  | JNum int
  | JStr string
  | JArr "json list"
  | JObj "(string \<times> json) list"

definition hex_digit :: "nat \<Rightarrow> char" where
  "hex_digit n = (''0123456789abcdef'' ! (n mod 16))"

definition HEX_digit :: "nat \<Rightarrow> char" where
  "HEX_digit n = (''0123456789ABCDEF'' ! (n mod 16))"

function nat_digits :: "nat \<Rightarrow> string" where
  "nat_digits n = (if n < 10 then [hex_digit n] else nat_digits (n div 10) @ [hex_digit (n mod 10)])"
  by pat_completeness auto
termination
  by (relation "measure id") auto

declare nat_digits.simps [simp del]

definition int_text :: "int \<Rightarrow> string" where
  \<comment> \<open>\<open>String(n)\<close> for an integer \<open>n\<close>\<close>
  "int_text i = (if i < 0 then CHR ''-'' # nat_digits (nat (- i)) else nat_digits (nat i))"

definition quote_char :: "char \<Rightarrow> string" where
  \<comment> \<open>one code unit inside a JSON string literal, as \<open>JSON.stringify\<close> writes it\<close>
  "quote_char c =
     (if c = CHR 0x22 then [CHR 0x5C, CHR 0x22]
      else if c = CHR 0x5C then [CHR 0x5C, CHR 0x5C]
      else if c = CHR 0x08 then [CHR 0x5C, CHR ''b'']
      else if c = CHR 0x0C then [CHR 0x5C, CHR ''f'']
      else if c = CHR 0x0A then [CHR 0x5C, CHR ''n'']
      else if c = CHR 0x0D then [CHR 0x5C, CHR ''r'']
      else if c = CHR 0x09 then [CHR 0x5C, CHR ''t'']
      else if of_char c < (32::nat)
        then [CHR 0x5C, CHR ''u'', CHR ''0'', CHR ''0'',
              hex_digit (of_char c div 16), hex_digit (of_char c mod 16)]
      else [c])"

definition quote_string :: "string \<Rightarrow> string" where
  "quote_string s = [CHR 0x22] @ concat (map quote_char s) @ [CHR 0x22]"

fun join :: "string \<Rightarrow> string list \<Rightarrow> string" where
  \<comment> \<open>\<open>Array.prototype.join\<close>\<close>
  "join sep [] = []"
| "join sep [x] = x"
| "join sep (x # y # ys) = x @ sep @ join sep (y # ys)"

fun JSON_stringify :: "json \<Rightarrow> string" where
  \<comment> \<open>\<open>JSON.stringify(value)\<close> without indentation\<close>
  "JSON_stringify JNull = ''null''"
| "JSON_stringify (JBool b) = (if b then ''true'' else ''false'')"
| "JSON_stringify (JNum i) = int_text i"
| "JSON_stringify (JStr s) = quote_string s"
| "JSON_stringify (JArr xs) = ''['' @ join '','' (map JSON_stringify xs) @ '']''"
| "JSON_stringify (JObj kvs) =
     ''{'' @ join '','' (map (\<lambda>kv. quote_string (fst kv) @ '':'' @ JSON_stringify (snd kv)) kvs) @ ''}''"

fun String :: "json \<Rightarrow> string" where
  \<comment> \<open>\<open>String(value)\<close>\<close>
  "String JNull = ''null''"
| "String (JBool b) = (if b then ''true'' else ''false'')"
| "String (JNum i) = int_text i"
| "String (JStr s) = s"
| "String (JArr xs) = join '','' (map (\<lambda>x. if x = JNull then [] else String x) xs)"
| "String (JObj kvs) = ''[object Object]''"

definition typeof_object :: "json \<Rightarrow> bool" where
  \<comment> \<open>\<open>typeof value === 'object'\<close>: null, arrays and objects\<close>
  "typeof_object v = (case v of JNull \<Rightarrow> True | JArr _ \<Rightarrow> True | JObj _ \<Rightarrow> True | _ \<Rightarrow> False)"

section \<open>Interpolation (lib/interpolation.ts)\<close>

text \<open>
  \<open>variables\<close> holds the own properties of the plain object \<open>context.variables\<close>. An own
  property that holds \<open>undefined\<close> is not represented (an \<open>EnvVariable\<close> never holds it).
\<close>

record InterpolationContext =
  variables :: "string \<rightharpoonup> json"

text \<open>
  What the property read \<open>context.variables[name]\<close> yields: the own property, or else
  what a plain object inherits from \<open>Object.prototype\<close>, namely the constructor \<open>Object\<close>,
  the prototype itself under \<open>__proto__\<close>, or one of its native methods; \<open>None\<close> is
  \<open>undefined\<close>.
\<close>

datatype js_value = Own json | NativeFunction string | ObjectPrototype

definition object_prototype_methods :: "string list" where
  "object_prototype_methods =
     [''toString'', ''toLocaleString'', ''valueOf'', ''hasOwnProperty'', ''isPrototypeOf'',
      ''propertyIsEnumerable'', ''__defineGetter__'', ''__defineSetter__'',
      ''__lookupGetter__'', ''__lookupSetter__'']"

definition get_property :: "(string \<rightharpoonup> json) \<Rightarrow> string \<Rightarrow> js_value option" where
  "get_property obj name =
     (case obj name of
        Some v \<Rightarrow> Some (Own v)
      | None \<Rightarrow>
          if name = ''constructor'' then Some (NativeFunction ''Object'')
          else if name = ''__proto__'' then Some ObjectPrototype
          else if name \<in> set object_prototype_methods then Some (NativeFunction name)
          else None)"

text \<open>
  The last two lines of the replacer: \<open>JSON.stringify(value)\<close> when \<open>typeof value\<close> is
  \<open>'object'\<close>, \<open>String(value)\<close> otherwise. \<open>Object.prototype\<close> has no enumerable property;
  a native function is printed the way V8 prints it.
\<close>

definition value_text :: "js_value \<Rightarrow> string" where
  "value_text v =
     (case v of
        Own j \<Rightarrow> if typeof_object j then JSON_stringify j else String j
      | NativeFunction n \<Rightarrow> ''function '' @ n @ ''() { [native code] }''
      | ObjectPrototype \<Rightarrow> ''{}'')"

text \<open>
  The regular expression \<open>/\{\{([^}]+)\}\}/\<close> tried at the start of a string: two opening
  braces, the longest non-empty run of characters other than a closing brace, two closing
  braces. The result is the matched text, the captured group and the rest of the string.
  Since the group cannot contain a closing brace, backtracking finds no other match.
\<close>

definition match_placeholder :: "string \<Rightarrow> (string \<times> string \<times> string) option" where
  "match_placeholder s =
     (case s of
        c1 # c2 # r \<Rightarrow>
          if c1 = CHR ''{'' \<and> c2 = CHR ''{'' then
            (let g = takeWhile (\<lambda>c. c \<noteq> CHR ''}'') r;
                 r' = dropWhile (\<lambda>c. c \<noteq> CHR ''}'') r
             in if g \<noteq> [] \<and> take 2 r' = ''}}''
                then Some (''{{'' @ g @ ''}}'', g, drop 2 r')
                else None)
          else None
      | _ \<Rightarrow> None)"

lemma match_placeholder_shorter:
  "match_placeholder s = Some (m, g, rest) \<Longrightarrow> length rest < length s"
proof -
  assume a: "match_placeholder s = Some (m, g, rest)"
  then obtain r where s: "s = CHR ''{'' # CHR ''{'' # r"
    and rest: "rest = drop 2 (dropWhile (\<lambda>c. c \<noteq> CHR ''}'') r)"
    by (auto simp: match_placeholder_def Let_def split: list.splits if_splits)
  have "length (dropWhile (\<lambda>c. c \<noteq> CHR ''}'') r) \<le> length r"
    by (rule length_dropWhile_le)
  with s rest show ?thesis by simp
qed

text \<open>
  \<open>template.replace(/\{\{([^}]+)\}\}/g, f)\<close>: matches are found from left to right, never
  overlapping; each is replaced by \<open>f match group\<close>; everything else is copied.
\<close>

function replace_placeholders :: "(string \<Rightarrow> string \<Rightarrow> string) \<Rightarrow> string \<Rightarrow> string" where
  "replace_placeholders f [] = []"
| "replace_placeholders f (c # cs) =
     (case match_placeholder (c # cs) of
        Some (m, g, rest) \<Rightarrow> f m g @ replace_placeholders f rest
      | None \<Rightarrow> c # replace_placeholders f cs)"
  by pat_completeness auto
termination
  by (relation "measure (\<lambda>(f, s). length s)") (auto dest: match_placeholder_shorter)

definition interpolateString :: "string \<Rightarrow> InterpolationContext \<Rightarrow> string" where
  "interpolateString template context =
     replace_placeholders
       (\<lambda>match varName.
          let name = trim varName in
          case get_property (variables context) name of
            None \<Rightarrow> match
          | Some v \<Rightarrow> value_text v)
       template"

text \<open>
  The decomposition of a template by the same global regular expression: its matches
  from left to right, each with its text and captured group, and the characters between
  them.
\<close>

datatype segment = Literal char | Placeholder string string

function segments :: "string \<Rightarrow> segment list" where
  "segments [] = []"
| "segments (c # cs) =
     (case match_placeholder (c # cs) of
        Some (m, g, rest) \<Rightarrow> Placeholder m g # segments rest
      | None \<Rightarrow> Literal c # segments cs)"
  by pat_completeness auto
termination
  by (relation "measure length") (auto dest: match_placeholder_shorter)

text \<open>The groups of all matches, in order: the loop over \<open>regex.exec\<close>.\<close>

function placeholder_groups :: "string \<Rightarrow> string list" where
  "placeholder_groups [] = []"
| "placeholder_groups (c # cs) =
     (case match_placeholder (c # cs) of
        Some (m, g, rest) \<Rightarrow> g # placeholder_groups rest
      | None \<Rightarrow> placeholder_groups cs)"
  by pat_completeness auto
termination
  by (relation "measure length") (auto dest: match_placeholder_shorter)

definition extractVariableNames :: "string \<Rightarrow> string list" where
  "extractVariableNames template =
     foldl (\<lambda>names g. let name = trim g in if name \<in> set names then names else names @ [name])
       [] (placeholder_groups template)"


section \<open>Data model (types/index.ts)\<close>

datatype AuthMode = ModeNone | ModeBearer | ModeBasic | ModeApiKey

datatype AddTo = AddToHeader | AddToQuery

record BearerAuth =
  token :: string

record BasicAuth =
  username :: string
  password :: string

record ApiKeyAuth =
  ak_key :: string
  ak_value :: string
  addTo :: AddTo

text \<open>The optional sub-objects of \<open>AuthConfig\<close> are options: \<open>None\<close> is an absent property.\<close>

record AuthConfig =
  mode :: AuthMode
  bearer :: "BearerAuth option"
  basic :: "BasicAuth option"
  apiKey :: "ApiKeyAuth option"

record Header =
  h_id :: string
  h_key :: string
  h_value :: string
  h_enabled :: bool

datatype File = File string

record FileMapping =
  fm_id :: string
  variablePath :: string
  fm_file :: "File option"
  fileName :: string

record ResponseStats =
  status :: int
  statusText :: string
  duration :: int
  stat_size :: nat
  timestamp :: int

text \<open>
  \<open>response\<close> holds whatever \<open>JSON.parse\<close> returned, \<^const>\<open>JNull\<close> being JavaScript's
  \<open>null\<close>; \<open>error\<close> is \<open>None\<close> for \<open>null\<close>. Response headers are key/value pairs in
  arrival order.
\<close>

record RequestResult =
  response :: json
  headers :: "(string \<times> string) list"
  stats :: "ResponseStats option"
  error :: "string option"

section \<open>Header and auth interpolation (lib/interpolation.ts)\<close>

definition interpolateHeaders :: "Header list \<Rightarrow> InterpolationContext \<Rightarrow> Header list" where
  "interpolateHeaders hs context =
     map (\<lambda>h. h\<lparr>h_key := interpolateString (h_key h) context,
               h_value := interpolateString (h_value h) context\<rparr>) hs"

definition interpolateAuth :: "AuthConfig \<Rightarrow> InterpolationContext \<Rightarrow> AuthConfig" where
  "interpolateAuth auth context =
     \<lparr>mode = mode auth,
      bearer = map_option (\<lambda>b. \<lparr>token = interpolateString (token b) context\<rparr>) (bearer auth),
      basic = map_option
        (\<lambda>b. \<lparr>username = interpolateString (username b) context,
              password = interpolateString (password b) context\<rparr>) (basic auth),
      apiKey = map_option
        (\<lambda>k. \<lparr>ak_key = interpolateString (ak_key k) context,
              ak_value = interpolateString (ak_value k) context,
              addTo = addTo k\<rparr>) (apiKey auth)\<rparr>"

section \<open>Building the outbound headers (lib/request.ts)\<close>

definition b64_char :: "nat \<Rightarrow> char" where
  "b64_char n =
     (''ABCDEFGHIJKLMNOPQRSTUVWXYZabcdefghijklmnopqrstuvwxyz0123456789+/'' ! (n mod 64))"

fun btoa :: "string \<Rightarrow> string" where
  \<comment> \<open>base64 of the code units, each one byte\<close>
  "btoa [] = []"
| "btoa [a] =
     (let x = of_char a :: nat
      in [b64_char (x div 4), b64_char ((x mod 4) * 16), CHR ''='', CHR ''=''])"
| "btoa [a, b] =
     (let x = of_char a :: nat; y = of_char b :: nat
      in [b64_char (x div 4), b64_char ((x mod 4) * 16 + y div 16),
          b64_char ((y mod 16) * 4), CHR ''=''])"
| "btoa (a # b # c # rest) =
     (let x = of_char a :: nat; y = of_char b :: nat; z = of_char c :: nat
      in [b64_char (x div 4), b64_char ((x mod 4) * 16 + y div 16),
          b64_char ((y mod 16) * 4 + z div 64), b64_char (z mod 64)] @ btoa rest)"

text \<open>
  A string is truthy when it is not empty; \<open>auth.bearer?.token\<close> is falsy also when the
  sub-object is absent. The result is the header's key and value, \<open>None\<close> for \<open>null\<close>.
\<close>

definition buildAuthHeader :: "AuthConfig \<Rightarrow> (string \<times> string) option" where
  "buildAuthHeader auth =
     (case mode auth of
        ModeBearer \<Rightarrow>
          (case bearer auth of
             Some b \<Rightarrow>
               if token b \<noteq> [] then Some (''Authorization'', ''Bearer '' @ token b) else None
           | None \<Rightarrow> None)
      | ModeBasic \<Rightarrow>
          (case basic auth of
             Some b \<Rightarrow>
               if username b \<noteq> [] \<and> password b \<noteq> []
               then Some (''Authorization'', ''Basic '' @ btoa (username b @ '':'' @ password b))
               else None
           | None \<Rightarrow> None)
      | ModeApiKey \<Rightarrow>
          (case apiKey auth of
             Some k \<Rightarrow>
               if ak_key k \<noteq> [] \<and> ak_value k \<noteq> [] \<and> addTo k = AddToHeader
               then Some (ak_key k, ak_value k)
               else None
           | None \<Rightarrow> None)
      | ModeNone \<Rightarrow> None)"

text \<open>
  A \<open>Record<string, string>\<close> is an association list: assigning a property replaces the
  value of an existing key in place and appends a new key (\<^const>\<open>AList.update\<close>), deleting
  one removes it (\<^const>\<open>AList.delete\<close>). Keys are taken to be ordinary own property names.
\<close>

definition proxy_name :: "string \<Rightarrow> string" where
  \<comment> \<open>the template literal \<open>`X-GraphIt-Header-${key}`\<close>\<close>
  "proxy_name k = ''X-GraphIt-Header-'' @ k"

definition set_header :: "bool \<Rightarrow> string \<Rightarrow> string \<Rightarrow> (string \<times> string) list \<Rightarrow> (string \<times> string) list" where
  \<comment> \<open>the two-armed assignment on \<open>useProxy\<close> that \<open>buildHeaders\<close> performs twice\<close>
  "set_header useProxy k v result =
     (if useProxy then AList.update (proxy_name k) v result
      else AList.update k v result)"

definition buildHeaders ::
  "Header list \<Rightarrow> AuthConfig \<Rightarrow> InterpolationContext \<Rightarrow> bool \<Rightarrow> string \<Rightarrow> (string \<times> string) list" where
  "buildHeaders hs auth context useProxy targetEndpoint =
     (let result0 = [(''Content-Type'', ''application/json'')];
          interpolatedHeaders = interpolateHeaders hs context;
          result1 = foldl (\<lambda>result h.
                      if h_enabled h then set_header useProxy (h_key h) (h_value h) result
                      else result) result0 interpolatedHeaders;
          interpolatedAuth = interpolateAuth auth context;
          authHeader = buildAuthHeader interpolatedAuth;
          result2 = (case authHeader of
                       Some (k, v) \<Rightarrow> set_header useProxy k v result1
                     | None \<Rightarrow> result1);
          result3 = (if useProxy then AList.update ''X-GraphIt-Target'' targetEndpoint result2
                     else result2)
      in result3)"


section \<open>The platform: URLs, percent-encoding, the network\<close>

datatype js_error =
    Error string   \<comment> \<open>a thrown value that is an instance of \<open>Error\<close>, with its message\<close>
  | Thrown json    \<comment> \<open>any other thrown value\<close>

definition utf8_bytes :: "char \<Rightarrow> nat list" where
  \<comment> \<open>the UTF-8 encoding of a code unit below 256\<close>
  "utf8_bytes c =
     (let n = of_char c :: nat in if n < 128 then [n] else [192 + n div 64, 128 + n mod 64])"

definition utf8_length :: "string \<Rightarrow> nat" where
  \<comment> \<open>\<open>new TextEncoder().encode(text).length\<close>\<close>
  "utf8_length s = length (concat (map utf8_bytes s))"

definition percent :: "nat \<Rightarrow> string" where
  "percent b = [CHR ''%'', HEX_digit (b div 16), HEX_digit (b mod 16)]"

definition is_alnum :: "char \<Rightarrow> bool" where
  "is_alnum c =
     (let n = of_char c :: nat
      in (48 \<le> n \<and> n \<le> 57) \<or> (65 \<le> n \<and> n \<le> 90) \<or> (97 \<le> n \<and> n \<le> 122))"

definition uri_unreserved :: "char \<Rightarrow> bool" where
  \<comment> \<open>the characters \<open>encodeURIComponent\<close> leaves alone\<close>
  "uri_unreserved c \<longleftrightarrow> is_alnum c \<or> c \<in> set ''-_.!~*'' \<or> c = CHR 0x27 \<or> c \<in> set ''()''"

definition encode_unit :: "char \<Rightarrow> string" where
  "encode_unit c = (if uri_unreserved c then [c] else concat (map percent (utf8_bytes c)))"

definition encodeURIComponent :: "string \<Rightarrow> string" where
  "encodeURIComponent s = concat (map encode_unit s)"

definition hex_value :: "char \<Rightarrow> nat option" where
  "hex_value c =
     (let n = of_char c :: nat
      in if 48 \<le> n \<and> n \<le> 57 then Some (n - 48)
         else if 65 \<le> n \<and> n \<le> 70 then Some (n - 55)
         else if 97 \<le> n \<and> n \<le> 102 then Some (n - 87)
         else None)"

definition percent_byte :: "string \<Rightarrow> nat option" where
  \<comment> \<open>the byte of an escape \<open>%XY\<close> at the start of the string\<close>
  "percent_byte s =
     (case s of
        p # h1 # h2 # _ \<Rightarrow>
          if p = CHR ''%'' then
            (case (hex_value h1, hex_value h2) of
               (Some a, Some b) \<Rightarrow> Some (16 * a + b)
             | _ \<Rightarrow> None)
          else None
      | _ \<Rightarrow> None)"

text \<open>
  \<open>decodeURIComponent\<close>; \<open>None\<close> is a thrown \<open>URIError\<close>. An escape sequence whose code
  point lies above 255 has no counterpart among the modelled strings and is \<open>None\<close> too.
\<close>

function decodeURIComponent :: "string \<Rightarrow> string option" where
  "decodeURIComponent [] = Some []"
| "decodeURIComponent (c # cs) =
     (if c \<noteq> CHR ''%'' then map_option ((#) c) (decodeURIComponent cs)
      else
        (case percent_byte (c # cs) of
           None \<Rightarrow> None
         | Some b1 \<Rightarrow>
             if b1 < 128 then map_option ((#) (char_of b1)) (decodeURIComponent (drop 2 cs))
             else if 194 \<le> b1 \<and> b1 \<le> 195 then
               (case percent_byte (drop 2 cs) of
                  None \<Rightarrow> None
                | Some b2 \<Rightarrow>
                    if 128 \<le> b2 \<and> b2 < 192
                    then map_option ((#) (char_of ((b1 - 192) * 64 + (b2 - 128))))
                           (decodeURIComponent (drop 5 cs))
                    else None)
             else None))"
  by pat_completeness auto
termination
  by (relation "measure length") auto

text \<open>
  A \<open>URL\<close> object: the serialisation up to the query, the list behind \<open>searchParams\<close>, and the
  fragment. \<open>searchParams.set\<close> overwrites the first pair of that name and removes the
  others, or appends a new pair.
\<close>

record URL =
  url_base :: string
  searchParams :: "(string \<times> string) list"
  url_hash :: string

fun replace_first :: "string \<Rightarrow> string \<Rightarrow> (string \<times> string) list \<Rightarrow> (string \<times> string) list" where
  "replace_first n v [] = []"
| "replace_first n v (p # ps) =
     (if fst p = n then (n, v) # filter (\<lambda>q. fst q \<noteq> n) ps else p # replace_first n v ps)"

definition searchParams_set :: "string \<Rightarrow> string \<Rightarrow> URL \<Rightarrow> URL" where
  "searchParams_set n v u =
     u\<lparr>searchParams :=
         (if n \<in> fst ` set (searchParams u) then replace_first n v (searchParams u)
          else searchParams u @ [(n, v)])\<rparr>"

definition form_encode_unit :: "char \<Rightarrow> string" where
  \<comment> \<open>the \<open>application/x-www-form-urlencoded\<close> serialiser\<close>
  "form_encode_unit c =
     (if is_alnum c \<or> c \<in> set ''*-._'' then [c]
      else if c = CHR '' '' then ''+''
      else concat (map percent (utf8_bytes c)))"

definition form_encode :: "string \<Rightarrow> string" where
  "form_encode s = concat (map form_encode_unit s)"

definition url_toString :: "URL \<Rightarrow> string" where
  "url_toString u =
     url_base u
     @ (if searchParams u = [] then []
        else ''?'' @ join ''&'' (map (\<lambda>p. form_encode (fst p) @ ''='' @ form_encode (snd p))
                                  (searchParams u)))
     @ url_hash u"

datatype form_part = TextPart string | FilePart File

datatype request_body = TextBody string | FormData "(string \<times> form_part) list"

text \<open>
  The arguments of one call of \<open>fetch\<close>; \<open>fr_abort_after\<close> is the delay after which the
  request's abort signal fires.
\<close>

record fetch_request =
  fr_url :: string
  fr_method :: string
  fr_headers :: "(string \<times> string) list"
  fr_body :: "request_body option"
  fr_abort_after :: int

record Response =
  resp_status :: int
  resp_statusText :: string
  resp_headers :: "(string \<times> string) list"
  resp_text :: "js_error + string"   \<comment> \<open>what \<open>await response.text()\<close> yields\<close>

text \<open>
  What the code asks of its environment: the \<open>URL\<close> constructor, \<open>JSON.parse\<close>, the outcome
  of a \<open>fetch\<close> (a rejection, also after an abort, is \<open>Inl\<close>), the successive readings of
  \<open>performance.now()\<close> during one call, and \<open>Date.now()\<close>.
\<close>

record platform =
  new_URL :: "string \<Rightarrow> js_error + URL"
  JSON_parse :: "string \<Rightarrow> js_error + json"
  fetch :: "fetch_request \<Rightarrow> js_error + Response"
  performance_now :: "nat \<Rightarrow> int"
  Date_now :: int

text \<open>A computation that may throw, together with the calls of \<open>fetch\<close> it has made.\<close>

type_synonym 'a io = "(js_error + 'a) \<times> fetch_request list"

definition do_fetch :: "platform \<Rightarrow> fetch_request \<Rightarrow> Response io" where
  "do_fetch w req = (fetch w req, [req])"


section \<open>The request executor (lib/request.ts)\<close>

datatype HttpMethod = GET | POST | PUT | PATCH | DELETE

record RequestOptions =
  endpoint :: string
  query :: string
  opt_variables :: string
  operationName :: "string option"
  opt_headers :: "Header list"
  auth :: AuthConfig
  httpMethod :: HttpMethod
  fileMappings :: "FileMapping list"
  useProxy :: bool
  timeout :: int
  "context" :: InterpolationContext

definition isValidUrl :: "platform \<Rightarrow> string \<Rightarrow> bool" where
  "isValidUrl w url = (case new_URL w url of Inl _ \<Rightarrow> False | Inr _ \<Rightarrow> True)"

definition buildApiKeyQueryParam :: "AuthConfig \<Rightarrow> string" where
  "buildApiKeyQueryParam a =
     (case apiKey a of
        Some k \<Rightarrow>
          if mode a = ModeApiKey \<and> addTo k = AddToQuery \<and> ak_key k \<noteq> [] \<and> ak_value k \<noteq> []
          then encodeURIComponent (ak_key k) @ ''='' @ encodeURIComponent (ak_value k)
          else []
      | None \<Rightarrow> [])"

fun split_on :: "char \<Rightarrow> string \<Rightarrow> string list" where
  \<comment> \<open>\<open>s.split(c)\<close> for a one-character separator\<close>
  "split_on sep [] = [[]]"
| "split_on sep (x # xs) =
     (if x = sep then [] # split_on sep xs
      else (case split_on sep xs of h # t \<Rightarrow> (x # h) # t | [] \<Rightarrow> [[x]]))"

text \<open>
  The query string of a direct GET: the branch \<open>if (!options.useProxy)\<close> of
  \<open>executeGetRequest\<close>, applied to the freshly constructed \<open>URL\<close>. The destructuring
  \<open>[key, value]\<close> of a one-element array leaves \<open>value\<close> undefined, which
  \<open>decodeURIComponent\<close> turns into the text \<open>undefined\<close>.
\<close>

definition get_query_url :: "RequestOptions \<Rightarrow> string \<Rightarrow> URL \<Rightarrow> js_error + URL" where
  "get_query_url options vars url =
     (let u1 = searchParams_set ''query'' (query options) url;
          u2 = (if vars \<noteq> [] \<and> vars \<noteq> ''{}'' then searchParams_set ''variables'' vars u1 else u1);
          u3 = (case operationName options of
                  Some n \<Rightarrow> if n \<noteq> [] then searchParams_set ''operationName'' n u2 else u2
                | None \<Rightarrow> u2);
          interpolatedAuth = interpolateAuth (auth options) (context options);
          apiKeyParam = buildApiKeyQueryParam interpolatedAuth
      in if apiKeyParam \<noteq> [] then
           (case split_on CHR ''='' apiKeyParam of
              key # value # _ \<Rightarrow>
                (case (decodeURIComponent key, decodeURIComponent value) of
                   (Some k, Some v) \<Rightarrow> Inr (searchParams_set k v u3)
                 | _ \<Rightarrow> Inl (Error ''URI malformed''))
            | [key] \<Rightarrow>
                (case decodeURIComponent key of
                   Some k \<Rightarrow> Inr (searchParams_set k ''undefined'' u3)
                 | None \<Rightarrow> Inl (Error ''URI malformed''))
            | [] \<Rightarrow> Inr u3)
         else Inr u3)"

definition operation_object :: "string \<Rightarrow> json option \<Rightarrow> string option \<Rightarrow> json" where
  \<comment> \<open>\<open>{query, variables, operationName}\<close>; \<open>JSON.stringify\<close> drops undefined properties\<close>
  "operation_object q vars opname =
     JObj ([(''query'', JStr q)]
           @ (case vars of Some v \<Rightarrow> [(''variables'', v)] | None \<Rightarrow> [])
           @ (case opname of Some n \<Rightarrow> [(''operationName'', JStr n)] | None \<Rightarrow> []))"

definition executeGetRequest ::
  "platform \<Rightarrow> string \<Rightarrow> RequestOptions \<Rightarrow> (string \<times> string) list \<Rightarrow> int \<Rightarrow> Response io" where
  "executeGetRequest w ep options hdrs tmo =
     (let vars = interpolateString (opt_variables options) (context options)
      in case new_URL w (if useProxy options then ''/api/proxy'' else ep) of
           Inl e \<Rightarrow> (Inl e, [])
         | Inr url0 \<Rightarrow>
             (case (if \<not> useProxy options then get_query_url options vars url0 else Inr url0) of
                Inl e \<Rightarrow> (Inl e, [])
              | Inr url \<Rightarrow>
                  (let hdrs1 = (if useProxy options
                                then AList.update ''X-GraphIt-Method'' ''GET'' hdrs else hdrs);
                       hdrs2 = AList.delete ''Content-Type'' hdrs1
                   in case (if useProxy options then
                              (case (if vars \<noteq> [] then map_sum id Some (JSON_parse w vars)
                                     else Inr None) of
                                 Inl e \<Rightarrow> Inl e
                               | Inr pv \<Rightarrow>
                                   Inr (Some (TextBody (JSON_stringify
                                     (operation_object (query options) pv (operationName options))))))
                            else Inr None) of
                        Inl e \<Rightarrow> (Inl e, [])
                      | Inr body \<Rightarrow>
                          do_fetch w
                            \<lparr>fr_url = url_toString url,
                             fr_method = (if useProxy options then ''POST'' else ''GET''),
                             fr_headers = hdrs2,
                             fr_body = body,
                             fr_abort_after = tmo\<rparr>)))"

definition executePostRequest ::
  "platform \<Rightarrow> string \<Rightarrow> RequestOptions \<Rightarrow> (string \<times> string) list \<Rightarrow> bool \<Rightarrow> int \<Rightarrow> Response io" where
  "executePostRequest w ep options hdrs proxy tmo =
     (let vars = interpolateString (opt_variables options) (context options);
          url = (if proxy then ''/api/proxy'' else ep);
          parsedVariables =
            (if vars \<noteq> [] then (case JSON_parse w vars of Inr v \<Rightarrow> Some v | Inl _ \<Rightarrow> None)
             else None);
          body = JSON_stringify (operation_object (query options) parsedVariables (operationName options))
      in do_fetch w
           \<lparr>fr_url = url, fr_method = ''POST'', fr_headers = hdrs,
            fr_body = Some (TextBody body), fr_abort_after = tmo\<rparr>)"

subsection \<open>Multipart requests\<close>

definition is_digit :: "char \<Rightarrow> bool" where
  "is_digit c = (let n = of_char c :: nat in 48 \<le> n \<and> n \<le> 57)"

definition array_index :: "string \<Rightarrow> nat option" where
  \<comment> \<open>a property name that is an array index: decimal digits without a leading zero\<close>
  "array_index s =
     (if s \<noteq> [] \<and> list_all is_digit s \<and> (s = ''0'' \<or> hd s \<noteq> CHR ''0'')
      then Some (foldl (\<lambda>acc c. 10 * acc + (of_char c - 48)) 0 s)
      else None)"

definition array_put :: "json list \<Rightarrow> nat \<Rightarrow> json \<Rightarrow> json list" where
  \<comment> \<open>\<open>xs[i] = v\<close>; \<open>JSON.stringify\<close> prints the holes of a lengthened array as null\<close>
  "array_put xs i v =
     (if i < length xs then xs[i := v] else xs @ replicate (i - length xs) JNull @ [v])"

text \<open>
  \<open>current[name] = value\<close> in strict mode. On an object the property is set; on an array an
  index is set and any other name becomes a property that \<open>JSON.stringify\<close> does not print;
  on \<open>null\<close> and on a primitive the assignment throws a \<open>TypeError\<close>. Property names
  inherited from a prototype, and \<open>length\<close> on arrays, are outside the model.
\<close>

definition assign_property :: "json \<Rightarrow> string \<Rightarrow> json \<Rightarrow> js_error + json" where
  "assign_property current name v =
     (case current of
        JObj kvs \<Rightarrow> Inr (JObj (AList.update name v kvs))
      | JArr xs \<Rightarrow>
          (case array_index name of Some i \<Rightarrow> Inr (JArr (array_put xs i v)) | None \<Rightarrow> Inr (JArr xs))
      | _ \<Rightarrow> Inl (Error ''Cannot set properties''))"

text \<open>
  The loop of \<open>setNestedValue\<close> over the parts of the path, followed by the final
  assignment. The source mutates the nested objects in place; the model rebuilds the value
  around the changed child. \<open>part in current\<close> throws a \<open>TypeError\<close> when \<open>current\<close> is \<open>null\<close>
  or a primitive.
\<close>

fun nested_set :: "json \<Rightarrow> string list \<Rightarrow> json \<Rightarrow> js_error + json" where
  "nested_set current [] v = Inr current"
| "nested_set current [name] v = assign_property current name v"
| "nested_set current (part # rest) v =
     (case current of
        JObj kvs \<Rightarrow>
          (case nested_set (case map_of kvs part of None \<Rightarrow> JObj [] | Some child \<Rightarrow> child) rest v of
             Inl e \<Rightarrow> Inl e
           | Inr child' \<Rightarrow> Inr (JObj (AList.update part child' kvs)))
      | JArr xs \<Rightarrow>
          (case array_index part of
             Some i \<Rightarrow>
               (case nested_set (if i < length xs then xs ! i else JObj []) rest v of
                  Inl e \<Rightarrow> Inl e
                | Inr child' \<Rightarrow> Inr (JArr (array_put xs i child')))
           | None \<Rightarrow>
               (case nested_set (JObj []) rest v of
                  Inl e \<Rightarrow> Inl e
                | Inr _ \<Rightarrow> Inr (JArr xs)))
      | _ \<Rightarrow> Inl (Error ''Cannot use 'in' operator''))"

definition setNestedValue :: "json \<Rightarrow> string \<Rightarrow> json \<Rightarrow> js_error + json" where
  "setNestedValue obj path v = nested_set obj (split_on CHR ''.'' path) v"

text \<open>
  The loop over \<open>options.fileMappings\<close>: the state is the \<open>map\<close> object, \<open>fileList\<close> and the
  variables object being nulled out.
\<close>

fun multipart_loop ::
  "FileMapping list \<Rightarrow> (string \<times> string list) list \<times> File list \<times> json
     \<Rightarrow> js_error + (string \<times> string list) list \<times> File list \<times> json" where
  "multipart_loop [] st = Inr st"
| "multipart_loop (mapping # rest) (fmap, fileList, parsedVariables) =
     (case fm_file mapping of
        Some f \<Rightarrow>
          (let index = length fileList;
               fileList' = fileList @ [f];
               fmap' = AList.update (nat_digits index) [''variables.'' @ variablePath mapping] fmap
           in case setNestedValue parsedVariables (variablePath mapping) JNull of
                Inl e \<Rightarrow> Inl e
              | Inr pv' \<Rightarrow> multipart_loop rest (fmap', fileList', pv'))
      | None \<Rightarrow> multipart_loop rest (fmap, fileList, parsedVariables))"

definition executeMultipartRequest ::
  "platform \<Rightarrow> string \<Rightarrow> RequestOptions \<Rightarrow> (string \<times> string) list \<Rightarrow> int \<Rightarrow> Response io" where
  "executeMultipartRequest w ep options hdrs tmo =
     (let vars = interpolateString (opt_variables options) (context options);
          parsed0 = (if vars \<noteq> [] then (case JSON_parse w vars of Inr v \<Rightarrow> v | Inl _ \<Rightarrow> JObj [])
                     else JObj [])
      in case multipart_loop (fileMappings options) ([], [], parsed0) of
           Inl e \<Rightarrow> (Inl e, [])
         | Inr (fmap, fileList, parsedVariables) \<Rightarrow>
             (let operations = JSON_stringify
                    (operation_object (query options) (Some parsedVariables) (operationName options));
                  formData =
                    [(''operations'', TextPart operations),
                     (''map'', TextPart (JSON_stringify
                        (JObj (map (\<lambda>kv. (fst kv, JArr (map JStr (snd kv)))) fmap))))]
                    @ map (\<lambda>i. (nat_digits i, FilePart (fileList ! i))) [0 ..< length fileList];
                  hdrs' = AList.delete ''Content-Type'' hdrs
              in do_fetch w
                   \<lparr>fr_url = ep, fr_method = ''POST'', fr_headers = hdrs',
                    fr_body = Some (FormData formData), fr_abort_after = tmo\<rparr>))"

subsection \<open>executeRequest\<close>

text \<open>The \<open>try\<close> block up to the arrival of the response.\<close>

definition sendRequest :: "platform \<Rightarrow> RequestOptions \<Rightarrow> Response io" where
  "sendRequest w options =
     (let ep = interpolateString (endpoint options) (context options)
      in if ep = [] \<or> \<not> isValidUrl w ep then (Inl (Error ''Invalid endpoint URL''), [])
         else
           (let hdrs = buildHeaders (opt_headers options) (auth options) (context options)
                         (useProxy options) ep;
                hasFiles = list_ex (\<lambda>m. fm_file m \<noteq> None) (fileMappings options)
            in if httpMethod options = GET
                 then executeGetRequest w ep options hdrs (timeout options)
               else if hasFiles
                 then executeMultipartRequest w ep options hdrs (timeout options)
               else executePostRequest w ep options hdrs (useProxy options) (timeout options)))"

text \<open>The rest of the \<open>try\<close> block: the response is read and parsed.\<close>

definition readResponse :: "platform \<Rightarrow> int \<Rightarrow> Response \<Rightarrow> js_error + RequestResult" where
  "readResponse w startTime resp =
     (let dur = performance_now w 1 - startTime
      in case resp_text resp of
           Inl e \<Rightarrow> Inl e
         | Inr responseText \<Rightarrow>
             (let sz = utf8_length responseText;
                  responseHeaders = resp_headers resp;
                  parsedResponse =
                    (case JSON_parse w responseText of
                       Inr v \<Rightarrow> v
                     | Inl _ \<Rightarrow>
                         JObj [(''errors'',
                                JArr [JObj [(''message'', JStr ''Failed to parse response as JSON'')]])])
              in Inr \<lparr>response = parsedResponse,
                      headers = responseHeaders,
                      stats = Some \<lparr>status = resp_status resp,
                                    statusText = resp_statusText resp,
                                    duration = dur,
                                    stat_size = sz,
                                    timestamp = Date_now w\<rparr>,
                      error = None\<rparr>))"

text \<open>The \<open>catch\<close> block; \<open>k\<close> counts the earlier readings of \<open>performance.now()\<close>.\<close>

definition failure :: "platform \<Rightarrow> int \<Rightarrow> nat \<Rightarrow> js_error \<Rightarrow> RequestResult" where
  "failure w startTime k e =
     (let dur = performance_now w k - startTime
      in \<lparr>response = JNull,
          headers = [],
          stats = Some \<lparr>status = 0, statusText = ''Error'', duration = dur, stat_size = 0,
                        timestamp = Date_now w\<rparr>,
          error = Some (case e of Error msg \<Rightarrow> msg | Thrown _ \<Rightarrow> ''Unknown error'')\<rparr>)"

text \<open>
  The result is what the promise settles with: \<open>Inr\<close> when it resolves, \<open>Inl\<close> when it
  rejects; the second component lists the calls of \<open>fetch\<close>.
\<close>

definition executeRequest :: "platform \<Rightarrow> RequestOptions \<Rightarrow> RequestResult io" where
  "executeRequest w options =
     (let startTime = performance_now w 0
      in case sendRequest w options of
           (Inl e, calls) \<Rightarrow> (Inr (failure w startTime 1 e), calls)
         | (Inr resp, calls) \<Rightarrow>
             (case readResponse w startTime resp of
                Inl e \<Rightarrow> (Inr (failure w startTime 2 e), calls)
              | Inr result \<Rightarrow> (Inr result, calls)))"


section \<open>The subscription manager (lib/subscription.ts)\<close>

datatype SubscriptionProtocol = WS | SSE | AppSync


text \<open>
  A client object of \<open>graphql-ws\<close> or \<open>graphql-sse\<close> as \<open>createClient\<close> was asked to build it,
  and the operation handed to its \<open>subscribe\<close>.
\<close>

record client =
  c_kind :: SubscriptionProtocol
  c_url :: string
  c_params :: "(string \<times> string) list"

record operation =
  op_client :: nat
  op_query :: string
  op_variables :: "json option"
  op_operationName :: "string option"

text \<open>
  What the callbacks of the options were called with during a call; the \<open>id\<close> and
  \<open>timestamp\<close> of a message are left out.
\<close>

datatype notification =
    OnConnected
  | OnMessage string json   \<comment> \<open>type and payload of the message\<close>
  | OnError string

text \<open>
  The handle returned by \<open>subscribe\<close>: its \<open>unsubscribe\<close> closes over the function returned
  by the client's \<open>subscribe\<close>, that is over one operation, and reads the module variable
  of its kind when it is called.
\<close>

datatype SubscriptionHandle = WsHandle nat | SseHandle nat | NoHandle

text \<open>
  The module state. Client objects are numbered in the order of their creation and
  \<open>wsClient\<close>, \<open>sseClient\<close> refer to them by number; \<open>disposed\<close> lists the clients on which
  \<open>dispose()\<close> was called, \<open>cancelled\<close> the operations whose own unsubscribe function
  was called.
\<close>

record subscription_state =
  wsClient :: "nat option"
  sseClient :: "nat option"
  clients :: "client list"
  operations :: "operation list"
  disposed :: "nat list"
  cancelled :: "nat list"
  notifications :: "notification list"
  handles :: "SubscriptionHandle list"

















subsection \<open>The tracked client\<close>

text \<open>
  A module variable \<open>r\<close> of kind \<open>k\<close> is in order when it is \<open>null\<close> or refers to a client
  of that kind that was not disposed and is younger than every other client of the kind.
\<close>

definition tracked :: "SubscriptionProtocol \<Rightarrow> nat option \<Rightarrow> client list \<Rightarrow> nat list \<Rightarrow> bool" where
  "tracked k r cls dsp \<longleftrightarrow>
     (case r of
        None \<Rightarrow> True
      | Some c \<Rightarrow> c < length cls \<and> c_kind (cls ! c) = k \<and> c \<notin> set dsp
                  \<and> list_all (\<lambda>c'. c_kind (cls ! c') = k \<longrightarrow> c' \<le> c) [0 ..< length cls])"


section \<open>The script sandbox (lib/scripts.ts and its worker)\<close>

record EnvVariable =
  ev_id :: string
  ev_name :: string
  ev_value :: json
  isSecret :: bool

record ScriptResult =
  success :: bool
  logs :: "string list"
  envOverrides :: "(string \<times> json) list"
  varsOverrides :: "(string \<times> json) list"
  headersOverrides :: "(string \<times> string) list"
  script_error :: "string option"

text \<open>
  A user script is arbitrary JavaScript. What a run of it does is described by the calls it
  makes on the sandbox API, in order, by the time it keeps the worker's thread busy, and
  by how it ends: it returns, it throws, or it never returns. \<open>env.get\<close> and \<open>vars.get\<close>
  change nothing and are not listed.
\<close>

datatype api_call =
    EnvSet string json
  | VarsSet "(string \<times> json) list"
  | HeadersSet string string
  | Log "json list"

datatype ending = Returns | Throws js_error | NeverReturns

record script_run =
  api_calls :: "api_call list"
  busy_ms :: nat
  ends :: ending

text \<open>The message posted to the worker.\<close>

record ScriptMessage =
  script :: string
  msg_env :: "(string \<times> json) list"
  msg_vars :: json
  msg_headers :: "(string \<times> string) list"
  msg_response :: "json option"
  msg_timeout :: nat

text \<open>
  The JavaScript engine: what running \<open>new Function(..., script)\<close> on the sandbox API does
  (a script that does not parse throws a \<open>SyntaxError\<close> there).
\<close>

type_synonym engine = "ScriptMessage \<Rightarrow> script_run"

definition spaces :: "nat \<Rightarrow> string" where
  "spaces n = replicate n CHR '' ''"

fun JSON_stringify_pretty :: "nat \<Rightarrow> json \<Rightarrow> string" where
  \<comment> \<open>\<open>JSON.stringify(value, null, 2)\<close> at nesting depth \<open>d\<close>\<close>
  "JSON_stringify_pretty d (JArr xs) =
     (if xs = [] then ''[]''
      else ''['' @ [CHR 0x0A]
           @ join ('','' @ [CHR 0x0A])
               (map (\<lambda>x. spaces (2 * Suc d) @ JSON_stringify_pretty (Suc d) x) xs)
           @ [CHR 0x0A] @ spaces (2 * d) @ '']'')"
| "JSON_stringify_pretty d (JObj kvs) =
     (if kvs = [] then ''{}''
      else ''{'' @ [CHR 0x0A]
           @ join ('','' @ [CHR 0x0A])
               (map (\<lambda>kv. spaces (2 * Suc d) @ quote_string (fst kv) @ '': ''
                           @ JSON_stringify_pretty (Suc d) (snd kv)) kvs)
           @ [CHR 0x0A] @ spaces (2 * d) @ ''}'')"
| "JSON_stringify_pretty d v = JSON_stringify v"

text \<open>
  The worker's state: its four module variables, the pending timers (identifier and due
  time), the messages posted back so far, and the time.
\<close>

record worker =
  w_logs :: "string list"
  w_envOverrides :: "(string \<times> json) list"
  w_varsOverrides :: "(string \<times> json) list"
  w_headersOverrides :: "(string \<times> string) list"
  timers :: "(nat \<times> nat) list"
  posted :: "ScriptResult list"
  clock :: nat

definition sandbox_call :: "worker \<Rightarrow> api_call \<Rightarrow> worker" where
  \<comment> \<open>the state-changing members of \<open>createSandboxAPI\<close>\<close>
  "sandbox_call st c =
     (case c of
        EnvSet name v \<Rightarrow> st\<lparr>w_envOverrides := AList.update name v (w_envOverrides st)\<rparr>
      | VarsSet obj \<Rightarrow>
          st\<lparr>w_varsOverrides := foldl (\<lambda>acc kv. AList.update (fst kv) (snd kv) acc)
                                   (w_varsOverrides st) obj\<rparr>
      | HeadersSet k v \<Rightarrow> st\<lparr>w_headersOverrides := AList.update k v (w_headersOverrides st)\<rparr>
      | Log args \<Rightarrow>
          st\<lparr>w_logs := w_logs st @
               [join '' '' (map (\<lambda>arg. if typeof_object arg then JSON_stringify_pretty 0 arg
                                          else String arg) args)]\<rparr>)"

text \<open>
  \<open>executeScript\<close> runs on the worker's only thread: nothing else, no timer callback
  either, runs before it has returned or thrown. \<open>None\<close> is a call that never returns.
\<close>

definition executeScript :: "engine \<Rightarrow> ScriptMessage \<Rightarrow> worker \<Rightarrow> ((js_error + unit) \<times> worker) option" where
  "executeScript eng msg st =
     (let r = eng msg;
          st' = (foldl sandbox_call st (api_calls r))\<lparr>clock := clock st + busy_ms r\<rparr>
      in case ends r of
           Returns \<Rightarrow> Some (Inr (), st')
         | Throws e \<Rightarrow> Some (Inl e, st')
         | NeverReturns \<Rightarrow> None)"

definition snapshot :: "worker \<Rightarrow> bool \<Rightarrow> string option \<Rightarrow> ScriptResult" where
  \<comment> \<open>the result object built from the module variables\<close>
  "snapshot st ok err =
     \<lparr>success = ok, logs = w_logs st, envOverrides = w_envOverrides st,
      varsOverrides = w_varsOverrides st, headersOverrides = w_headersOverrides st,
      script_error = err\<rparr>"

definition postMessage :: "ScriptResult \<Rightarrow> worker \<Rightarrow> worker" where
  "postMessage r st = st\<lparr>posted := posted st @ [r]\<rparr>"

definition clearTimeout :: "nat \<Rightarrow> worker \<Rightarrow> worker" where
  "clearTimeout timeoutId st = st\<lparr>timers := filter (\<lambda>t. fst t \<noteq> timeoutId) (timers st)\<rparr>"

text \<open>The handler \<open>self.onmessage\<close>, one task of the worker's event loop.\<close>

definition onmessage :: "engine \<Rightarrow> ScriptMessage \<Rightarrow> worker \<Rightarrow> worker option" where
  "onmessage eng msg st0 =
     (let st1 = st0\<lparr>w_logs := [], w_envOverrides := [], w_varsOverrides := [],
                    w_headersOverrides := msg_headers msg\<rparr>;
          timeoutId = length (timers st1);
          st2 = st1\<lparr>timers := timers st1 @ [(timeoutId, clock st1 + msg_timeout msg)]\<rparr>
      in case executeScript eng msg st2 of
           None \<Rightarrow> None
         | Some (Inr _, st3) \<Rightarrow>
             Some (postMessage (snapshot (clearTimeout timeoutId st3) True None)
                     (clearTimeout timeoutId st3))
         | Some (Inl e, st3) \<Rightarrow>
             Some (postMessage
                     (snapshot (clearTimeout timeoutId st3) False
                        (Some (case e of Error m \<Rightarrow> m | Thrown v \<Rightarrow> String v)))
                     (clearTimeout timeoutId st3)))"

text \<open>
  Once a task has finished, the event loop runs the callbacks of the timers that are
  still pending; here each one is the timeout callback set up by \<open>onmessage\<close>.
\<close>

definition run_timers :: "worker \<Rightarrow> worker" where
  "run_timers st =
     foldl (\<lambda>s t. postMessage (snapshot s False (Some ''Script execution timed out'')) s)
       (st\<lparr>timers := [], clock := foldl max (clock st) (map snd (timers st))\<rparr>) (timers st)"

definition new_worker :: worker where
  "new_worker = \<lparr>w_logs = [], w_envOverrides = [], w_varsOverrides = [], w_headersOverrides = [],
                 timers = [], posted = [], clock = 0\<rparr>"

text \<open>
  The promise returned by the two entry points resolves with the first message the
  worker posts; \<open>None\<close> is a promise that stays pending for ever. The run is the first one
  on the worker that \<open>getWorker\<close> creates. A later run on the same worker starts alike
  when the runs before it have returned or thrown: \<open>onmessage\<close> resets the logs and
  overrides, and their timers have been cleared.
\<close>

definition await_worker :: "engine \<Rightarrow> ScriptMessage \<Rightarrow> ScriptResult option" where
  "await_worker eng msg =
     (case onmessage eng msg new_worker of
        None \<Rightarrow> None
      | Some st \<Rightarrow> (case posted (run_timers st) of r # _ \<Rightarrow> Some r | [] \<Rightarrow> None))"

definition script_inputs ::
  "platform \<Rightarrow> EnvVariable list \<Rightarrow> string \<Rightarrow> Header list
     \<Rightarrow> (string \<times> json) list \<times> json \<times> (string \<times> string) list" where
  \<comment> \<open>\<open>env\<close>, \<open>vars\<close> and \<open>headerMap\<close>, built alike by both entry points\<close>
  "script_inputs w envVariables vars hs =
     (foldl (\<lambda>env v. AList.update (ev_name v) (ev_value v) env) [] envVariables,
      (case JSON_parse w vars of Inr v \<Rightarrow> v | Inl _ \<Rightarrow> JObj []),
      foldl (\<lambda>m h. if h_enabled h then AList.update (h_key h) (h_value h) m else m) [] hs)"

definition empty_result :: ScriptResult where
  "empty_result = \<lparr>success = True, logs = [], envOverrides = [], varsOverrides = [],
                   headersOverrides = [], script_error = None\<rparr>"

definition runPreRequestScript ::
  "platform \<Rightarrow> engine \<Rightarrow> string \<Rightarrow> EnvVariable list \<Rightarrow> string \<Rightarrow> Header list \<Rightarrow> nat
     \<Rightarrow> ScriptResult option" where
  "runPreRequestScript w eng scr envVariables vars hs tmo =
     (if trim scr = [] then Some empty_result
      else
        (case script_inputs w envVariables vars hs of
           (env, vs, headerMap) \<Rightarrow>
             await_worker eng
               \<lparr>script = scr, msg_env = env, msg_vars = vs, msg_headers = headerMap,
                msg_response = None, msg_timeout = tmo\<rparr>))"

definition runPostRequestScript ::
  "platform \<Rightarrow> engine \<Rightarrow> string \<Rightarrow> EnvVariable list \<Rightarrow> string \<Rightarrow> Header list \<Rightarrow> json \<Rightarrow> nat
     \<Rightarrow> ScriptResult option" where
  "runPostRequestScript w eng scr envVariables vars hs resp tmo =
     (if trim scr = [] then Some empty_result
      else
        (case script_inputs w envVariables vars hs of
           (env, vs, headerMap) \<Rightarrow>
             await_worker eng
               \<lparr>script = scr, msg_env = env, msg_vars = vs, msg_headers = headerMap,
                msg_response = Some resp, msg_timeout = tmo\<rparr>))"


section \<open>A platform for concrete runs\<close>

text \<open>
  The examples below are evaluated on this platform. Its \<open>URL\<close> constructor accepts an
  \<open>http\<close> or \<open>https\<close> address without spaces, query or fragment and rejects everything
  else; its \<open>JSON.parse\<close> knows the texts \<open>{}\<close> and \<open>null\<close>; every \<open>fetch\<close> is answered by
  the same HTML page.
\<close>

definition sample_new_URL :: "string \<Rightarrow> js_error + URL" where
  "sample_new_URL s =
     (let rest = (if take 8 s = ''https://'' then drop 8 s
                  else if take 7 s = ''http://'' then drop 7 s else [])
      in if rest \<noteq> [] \<and> list_all (\<lambda>c. c \<notin> set '' ?#'') rest
         then Inr \<lparr>url_base = s, searchParams = [], url_hash = []\<rparr>
         else Inl (Error ''Invalid URL''))"

definition sample_JSON_parse :: "string \<Rightarrow> js_error + json" where
  "sample_JSON_parse s =
     (if s = ''{}'' then Inr (JObj [])
      else if s = ''null'' then Inr JNull
      else Inl (Error ''Unexpected token''))"

definition sample_page :: Response where
  "sample_page =
     \<lparr>resp_status = 200, resp_statusText = ''OK'',
      resp_headers = [(''content-type'', ''text/html'')],
      resp_text = Inr ''<html></html>''\<rparr>"

definition sample_platform :: platform where
  "sample_platform =
     \<lparr>new_URL = sample_new_URL,
      JSON_parse = sample_JSON_parse,
      fetch = (\<lambda>req. Inr sample_page),
      performance_now = (\<lambda>k. 1000 + 40 * int k),
      Date_now = 1700000000000\<rparr>"

text \<open>An engine that knows three scripts; any other text is treated as an empty script.\<close>

definition sample_engine :: engine where
  "sample_engine msg =
     (if script msg = ''while (true) {}''
        then \<lparr>api_calls = [], busy_ms = 0, ends = NeverReturns\<rparr>
      else if script msg = ''log(1); while (true) {}''
        then \<lparr>api_calls = [Log [JNum 1]], busy_ms = 0, ends = NeverReturns\<rparr>
      else if script msg = ''log(1); for (let i = 0; i < 1e10; i++) {}''
        then \<lparr>api_calls = [Log [JNum 1]], busy_ms = 9000, ends = Returns\<rparr>
      else \<lparr>api_calls = [], busy_ms = 0, ends = Returns\<rparr>)"

definition no_auth :: AuthConfig where
  "no_auth = \<lparr>mode = ModeNone, bearer = None, basic = None, apiKey = None\<rparr>"

definition sample_options :: RequestOptions where
  "sample_options =
     \<lparr>endpoint = ''{{API_URL}}/graphql'',
      query = ''{ me { id } }'',
      opt_variables = ''{}'',
      operationName = None,
      opt_headers = [],
      auth = no_auth,
      httpMethod = POST,
      fileMappings = [],
      useProxy = False,
      timeout = 30000,
      context = \<lparr>variables = [''API_URL'' \<mapsto> JStr ''https://x.test'']\<rparr>\<rparr>"

text \<open>Further inputs: an upload, a query-placed API key, a variables text, a subscription.\<close>

definition upload_mapping :: FileMapping where
  "upload_mapping = \<lparr>fm_id = ''1'', variablePath = ''file'', fm_file = Some (File ''a.png''),
                      fileName = ''a.png''\<rparr>"

definition upload_by_GET :: RequestOptions where
  "upload_by_GET = sample_options\<lparr>httpMethod := GET, fileMappings := [upload_mapping]\<rparr>"

definition upload_by_PUT :: RequestOptions where
  "upload_by_PUT = sample_options\<lparr>httpMethod := PUT, fileMappings := [upload_mapping]\<rparr>"




text \<open>A platform whose responses arrive but whose bodies cannot be read.\<close>

definition unreadable_body :: platform where
  "unreadable_body =
     sample_platform\<lparr>fetch := (\<lambda>req. Inr (sample_page\<lparr>resp_text := Inl (Error ''terminated'')\<rparr>))\<rparr>"




section \<open>Properties of interpolation\<close>

lemma match_placeholder_split:
  "match_placeholder s = Some (m, g, rest) \<Longrightarrow> s = m @ rest \<and> m = ''{{'' @ g @ ''}}''"
proof -
  assume a: "match_placeholder s = Some (m, g, rest)"
  then obtain r where s: "s = CHR ''{'' # CHR ''{'' # r"
    and g: "g = takeWhile (\<lambda>c. c \<noteq> CHR ''}'') r"
    and t2: "take 2 (dropWhile (\<lambda>c. c \<noteq> CHR ''}'') r) = ''}}''"
    and rest: "rest = drop 2 (dropWhile (\<lambda>c. c \<noteq> CHR ''}'') r)"
    and m: "m = ''{{'' @ g @ ''}}''"
    by (auto simp: match_placeholder_def Let_def split: list.splits if_splits)
  have "r = g @ dropWhile (\<lambda>c. c \<noteq> CHR ''}'') r"
    using g by simp
  also have "dropWhile (\<lambda>c. c \<noteq> CHR ''}'') r = ''}}'' @ rest"
    using t2 rest by (metis append_take_drop_id)
  finally show ?thesis using s m by simp
qed

lemma match_placeholder_group:
  "match_placeholder s = Some (m, g, rest) \<Longrightarrow> g \<noteq> [] \<and> CHR ''}'' \<notin> set g"
proof -
  assume a: "match_placeholder s = Some (m, g, rest)"
  then obtain r where g: "g = takeWhile (\<lambda>c. c \<noteq> CHR ''}'') r" and ne: "g \<noteq> []"
    by (auto simp: match_placeholder_def Let_def split: list.splits if_splits)
  have "\<forall>x \<in> set g. x \<noteq> CHR ''}''"
    unfolding g using set_takeWhileD by fastforce
  with ne show ?thesis by auto
qed

lemma match_placeholder_head:
  assumes ne: "name \<noteq> []" and nb: "CHR ''}'' \<notin> set name"
  shows "match_placeholder (''{{'' @ name @ ''}}'' @ post) = Some (''{{'' @ name @ ''}}'', name, post)"
proof -
  have all: "\<And>x. x \<in> set name \<Longrightarrow> x \<noteq> CHR ''}''" using nb by auto
  have tw: "takeWhile (\<lambda>c. c \<noteq> CHR ''}'') (name @ ''}}'' @ post) = name"
    using all by (simp add: takeWhile_append2)
  have dw: "dropWhile (\<lambda>c. c \<noteq> CHR ''}'') (name @ ''}}'' @ post) = ''}}'' @ post"
    using all by (simp add: dropWhile_append2)
  show ?thesis using ne tw dw by (simp add: match_placeholder_def Let_def)
qed

lemma match_placeholder_no_brace:
  "c \<noteq> CHR ''{'' \<Longrightarrow> match_placeholder (c # cs) = None"
  by (simp add: match_placeholder_def split: list.splits)

lemma interpolate_segments:
  "interpolateString t ctx = concat (map (\<lambda>s. case s of Literal c \<Rightarrow> [c]
                     | Placeholder m g \<Rightarrow>
                         (case get_property (variables ctx) (trim g) of
                            None \<Rightarrow> m | Some v \<Rightarrow> value_text v)) (segments t))"
  unfolding interpolateString_def
proof (induction t rule: segments.induct)
  case 1
  then show ?case by simp
next
  case (2 c cs)
  show ?case
  proof (cases "match_placeholder (c # cs)")
    case None
    with 2 show ?thesis by simp
  next
    case (Some a)
    obtain m g rest where a: "a = (m, g, rest)" by (cases a)
    show ?thesis
      using Some a "2.IH"(2) [OF Some a [symmetric] refl]
      by simp
  qed
qed

lemma segments_text: "concat (map (\<lambda>s. case s of Literal c \<Rightarrow> [c] | Placeholder m g \<Rightarrow> m) (segments t)) = t"
proof (induction t rule: segments.induct)
  case 1
  then show ?case by simp
next
  case (2 c cs)
  show ?case
  proof (cases "match_placeholder (c # cs)")
    case None
    with 2 show ?thesis by simp
  next
    case (Some a)
    obtain m g rest where a: "a = (m, g, rest)" by (cases a)
    have split: "c # cs = m @ rest"
      using match_placeholder_split Some a by blast
    have rest: "concat (map (\<lambda>s. case s of Literal c \<Rightarrow> [c] | Placeholder m g \<Rightarrow> m) (segments rest)) = rest"
      using "2.IH"(2) [OF Some a [symmetric] refl] .
    have "segments (c # cs) = Placeholder m g # segments rest"
      using Some a by simp
    then have "concat (map (\<lambda>s. case s of Literal c \<Rightarrow> [c] | Placeholder m g \<Rightarrow> m) (segments (c # cs))) = m @ rest"
      using rest by simp
    then show ?thesis
      using split by simp
  qed
qed

lemma segments_placeholder:
  "Placeholder m g \<in> set (segments t) \<Longrightarrow> m = ''{{'' @ g @ ''}}'' \<and> g \<noteq> [] \<and> CHR ''}'' \<notin> set g"
proof (induction t rule: segments.induct)
  case 1
  then show ?case by simp
next
  case (2 c cs)
  show ?case
  proof (cases "match_placeholder (c # cs)")
    case None
    with 2 show ?thesis by simp
  next
    case (Some a)
    obtain m' g' rest where a: "a = (m', g', rest)" by (cases a)
    from "2.prems" Some a
    consider "m = m'" "g = g'" | "Placeholder m g \<in> set (segments rest)" by auto
    then show ?thesis
    proof cases
      case 1
      then show ?thesis
        using match_placeholder_split [of "c # cs" m g rest]
          match_placeholder_group [of "c # cs" m g rest] Some a by simp
    next
      case 2
      then show ?thesis using "2.IH"(2) [OF Some a [symmetric] refl] by simp
    qed
  qed
qed

lemma segments_groups:
  "concat (map (\<lambda>s. case s of Literal c \<Rightarrow> [] | Placeholder m g \<Rightarrow> [g]) (segments t))
     = placeholder_groups t"
proof (induction t rule: segments.induct)
  case 1
  then show ?case by simp
next
  case (2 c cs)
  show ?case
  proof (cases "match_placeholder (c # cs)")
    case None
    with 2 show ?thesis by simp
  next
    case (Some a)
    obtain m g rest where a: "a = (m, g, rest)" by (cases a)
    show ?thesis
      using Some a "2.IH"(2) [OF Some a [symmetric] refl] by simp
  qed
qed

lemma interpolate_all_unbound:
  assumes "\<forall>g \<in> set (placeholder_groups t). get_property (variables ctx) (trim g) = None"
  shows "interpolateString t ctx = t"
proof -
  let ?render = "(\<lambda>s. case s of Literal c \<Rightarrow> [c]
                     | Placeholder m g \<Rightarrow>
                         (case get_property (variables ctx) (trim g) of
                            None \<Rightarrow> m | Some v \<Rightarrow> value_text v))"
  let ?text = "(\<lambda>s. case s of Literal c \<Rightarrow> [c] | Placeholder m g \<Rightarrow> m)"
  have "\<forall>s \<in> set (segments t). ?render s = ?text s"
  proof
    fix s assume s: "s \<in> set (segments t)"
    show "?render s = ?text s"
    proof (cases s)
      case (Literal c)
      then show ?thesis by simp
    next
      case (Placeholder m g)
      with s have "g \<in> set (placeholder_groups t)"
        unfolding segments_groups [symmetric] by force
      with assms have "get_property (variables ctx) (trim g) = None" by blast
      with Placeholder show ?thesis by simp
    qed
  qed
  then have "map ?render (segments t) = map ?text (segments t)"
    by simp
  then have "concat (map ?render (segments t)) = concat (map ?text (segments t))"
    by (rule arg_cong)
  then show ?thesis
    by (simp only: interpolate_segments segments_text)
qed


lemma set_dedup_names:
  "set (foldl (\<lambda>names g. let name = trim g in if name \<in> set names then names else names @ [name]) acc gs)
     = set acc \<union> trim ` set gs"
  by (induction gs arbitrary: acc) (auto simp: Let_def)

lemma set_extractVariableNames: "set (extractVariableNames t) = trim ` set (placeholder_groups t)"
  by (simp add: extractVariableNames_def set_dedup_names)

lemma interpolate_head_unbound:
  "name \<noteq> [] \<Longrightarrow> CHR ''}'' \<notin> set name \<Longrightarrow> get_property (variables ctx) (trim name) = None \<Longrightarrow>
   interpolateString (''{{'' @ name @ ''}}'' @ post) ctx = ''{{'' @ name @ ''}}'' @ interpolateString post ctx"
  using match_placeholder_head [of name post] by (simp add: interpolateString_def)

lemma interpolate_head_bound:
  "name \<noteq> [] \<Longrightarrow> CHR ''}'' \<notin> set name \<Longrightarrow> get_property (variables ctx) (trim name) = Some v \<Longrightarrow>
   interpolateString (''{{'' @ name @ ''}}'' @ post) ctx = value_text v @ interpolateString post ctx"
  using match_placeholder_head [of name post] by (simp add: interpolateString_def)

lemma interpolate_no_brace:
  "CHR ''{'' \<notin> set pre \<Longrightarrow> interpolateString (pre @ post) ctx = pre @ interpolateString post ctx"
  unfolding interpolateString_def
  by (induction pre) (auto simp: match_placeholder_no_brace)

text \<open>
  C9. Unresolved placeholders are left as they are, in every template and context.
  (1) \<open>interpolate("{{X}}", {})\<close> is \<open>"{{X}}"\<close>. (2) Every template is the concatenation of
  its segments, the matches of the regular expression and the characters between them,
  and (3) its interpolation is the concatenation of the same segments where a character
  stands for itself, a placeholder whose trimmed name reads as \<open>undefined\<close> in the
  context stands as its own text and any other placeholder is replaced by the text of its
  value; (4) the text of a placeholder is its name between the braces. (5, 6, 7) The
  same, step by step: an unbound placeholder at the head is copied, a bound one is
  replaced, a prefix without an opening brace is copied, and interpolation goes on behind
  each. (8) A template all of whose placeholder names are unbound is returned unchanged.
  (9) Hence applying \<open>interpolateString\<close> again to its own output changes nothing when no
  name occurring in that output is bound.
\<close>

theorem interpolateString_unbound_unchanged:
  "interpolateString ''{{X}}'' \<lparr>variables = Map.empty\<rparr> = ''{{X}}''
   \<and> concat (map (\<lambda>s. case s of Literal c \<Rightarrow> [c] | Placeholder m g \<Rightarrow> m) (segments t)) = t
   \<and> interpolateString t ctx
       = concat (map (\<lambda>s. case s of
                             Literal c \<Rightarrow> [c]
                           | Placeholder m g \<Rightarrow>
                               (case get_property (variables ctx) (trim g) of
                                  None \<Rightarrow> m
                                | Some v \<Rightarrow> value_text v))
                   (segments t))
   \<and> (\<forall>m g. Placeholder m g \<in> set (segments t)
          \<longrightarrow> m = ''{{'' @ g @ ''}}'' \<and> g \<noteq> [] \<and> CHR ''}'' \<notin> set g)
   \<and> (name \<noteq> [] \<and> CHR ''}'' \<notin> set name \<and> get_property (variables ctx) (trim name) = None
        \<longrightarrow> interpolateString (''{{'' @ name @ ''}}'' @ rest) ctx
              = ''{{'' @ name @ ''}}'' @ interpolateString rest ctx)
   \<and> (bound \<noteq> [] \<and> CHR ''}'' \<notin> set bound \<and> get_property (variables ctx) (trim bound) = Some v
        \<longrightarrow> interpolateString (''{{'' @ bound @ ''}}'' @ rest') ctx
              = value_text v @ interpolateString rest' ctx)
   \<and> (CHR ''{'' \<notin> set pre
        \<longrightarrow> interpolateString (pre @ post) ctx = pre @ interpolateString post ctx)
   \<and> ((\<forall>n \<in> set (extractVariableNames t). get_property (variables ctx) n = None)
        \<longrightarrow> interpolateString t ctx = t)
   \<and> ((\<forall>n \<in> set (extractVariableNames (interpolateString u ctx)).
          get_property (variables ctx) n = None)
        \<longrightarrow> interpolateString (interpolateString u ctx) ctx = interpolateString u ctx)"
proof (intro conjI impI allI)
  show "interpolateString ''{{X}}'' \<lparr>variables = Map.empty\<rparr> = ''{{X}}''"
    by (simp add: interpolateString_def get_property_def object_prototype_methods_def
          match_placeholder_def trim_def is_js_whitespace_def)
next
  show "concat (map (\<lambda>s. case s of Literal c \<Rightarrow> [c] | Placeholder m g \<Rightarrow> m) (segments t)) = t"
    by (rule segments_text)
next
  show "interpolateString t ctx
       = concat (map (\<lambda>s. case s of
                             Literal c \<Rightarrow> [c]
                           | Placeholder m g \<Rightarrow>
                               (case get_property (variables ctx) (trim g) of
                                  None \<Rightarrow> m
                                | Some v \<Rightarrow> value_text v))
                   (segments t))"
    by (rule interpolate_segments)
next
  fix m g assume "Placeholder m g \<in> set (segments t)"
  then have "m = ''{{'' @ g @ ''}}'' \<and> g \<noteq> [] \<and> CHR ''}'' \<notin> set g"
    by (rule segments_placeholder)
  then show "m = ''{{'' @ g @ ''}}''" and "g \<noteq> []" and "CHR ''}'' \<notin> set g"
    by blast+
next
  assume "name \<noteq> [] \<and> CHR ''}'' \<notin> set name \<and> get_property (variables ctx) (trim name) = None"
  then show "interpolateString (''{{'' @ name @ ''}}'' @ rest) ctx
              = ''{{'' @ name @ ''}}'' @ interpolateString rest ctx"
    using interpolate_head_unbound by blast
next
  assume "bound \<noteq> [] \<and> CHR ''}'' \<notin> set bound \<and> get_property (variables ctx) (trim bound) = Some v"
  then show "interpolateString (''{{'' @ bound @ ''}}'' @ rest') ctx
              = value_text v @ interpolateString rest' ctx"
    using interpolate_head_bound by blast
next
  assume "CHR ''{'' \<notin> set pre"
  then show "interpolateString (pre @ post) ctx = pre @ interpolateString post ctx"
    by (rule interpolate_no_brace)
next
  assume "\<forall>n \<in> set (extractVariableNames t). get_property (variables ctx) n = None"
  then show "interpolateString t ctx = t"
    by (intro interpolate_all_unbound) (simp add: set_extractVariableNames)
next
  assume "\<forall>n \<in> set (extractVariableNames (interpolateString u ctx)).
            get_property (variables ctx) n = None"
  then show "interpolateString (interpolateString u ctx) ctx = interpolateString u ctx"
    by (intro interpolate_all_unbound) (simp add: set_extractVariableNames)
qed


theorem interpolateString_unbound_unchanged_witness:
  "segments ''{{A}}/{{X}}'' = [Placeholder ''{{A}}'' ''A'', Literal CHR ''/'', Placeholder ''{{X}}'' ''X'']
   \<and> interpolateString ''{{A}}/{{X}}'' \<lparr>variables = [''A'' \<mapsto> JStr ''a'']\<rparr> = ''a/{{X}}''
   \<and> interpolateString ''a/{{X}}'' \<lparr>variables = [''A'' \<mapsto> JStr ''a'']\<rparr> = ''a/{{X}}''
   \<and> interpolateString (interpolateString ''{{A}}/{{X}}'' \<lparr>variables = [''A'' \<mapsto> JStr ''a'']\<rparr>)
         \<lparr>variables = [''A'' \<mapsto> JStr ''a'']\<rparr>
       = interpolateString ''{{A}}/{{X}}'' \<lparr>variables = [''A'' \<mapsto> JStr ''a'']\<rparr>
   \<and> interpolateString ''{{ X }}{{A}}'' \<lparr>variables = [''A'' \<mapsto> JStr ''a'']\<rparr>
       = ''{{ X }}'' @ interpolateString ''{{A}}'' \<lparr>variables = [''A'' \<mapsto> JStr ''a'']\<rparr>
   \<and> interpolateString ''{{A}}/{{X}}'' \<lparr>variables = [''A'' \<mapsto> JStr ''a'']\<rparr>
       = ''a'' @ interpolateString ''/{{X}}'' \<lparr>variables = [''A'' \<mapsto> JStr ''a'']\<rparr>
   \<and> interpolateString ''/{{X}}'' \<lparr>variables = [''A'' \<mapsto> JStr ''a'']\<rparr>
       = ''/'' @ interpolateString ''{{X}}'' \<lparr>variables = [''A'' \<mapsto> JStr ''a'']\<rparr>
   \<and> interpolateString ''{{constructor}}'' \<lparr>variables = Map.empty\<rparr>
       = ''function Object() { [native code] }''"
proof -
  let ?ctx = "\<lparr>variables = [''A'' \<mapsto> JStr ''a'']\<rparr>"
  let ?t = "''{{A}}/{{X}}''"
  let ?o = "''a/{{X}}''"
  have segs: "segments ?t = [Placeholder ''{{A}}'' ''A'', Literal CHR ''/'', Placeholder ''{{X}}'' ''X'']"
    by (simp add: match_placeholder_def)
  have trX: "trim '' X '' = ''X''" and trA: "trim ''A'' = ''A''" and trX': "trim ''X'' = ''X''"
    by (simp_all add: trim_def is_js_whitespace_def)
  have unbX: "get_property [''A'' \<mapsto> JStr ''a''] ''X'' = None"
    by (simp add: get_property_def object_prototype_methods_def)
  have bndA: "get_property [''A'' \<mapsto> JStr ''a''] ''A'' = Some (Own (JStr ''a''))"
    by (simp add: get_property_def)
  have shown: "value_text (Own (JStr ''a'')) = ''a''"
    by (simp add: value_text_def typeof_object_def)
  have names: "extractVariableNames ?o = [''X'']"
    by (simp add: extractVariableNames_def match_placeholder_def trX')
  note inst = interpolateString_unbound_unchanged
    [of ?t ?ctx "'' X ''" "''{{A}}''" "''A''" "Own (JStr ''a'')" "''/{{X}}''" "''/''" "''{{X}}''" ?t]
  note fixed = interpolateString_unbound_unchanged
    [of ?o ?ctx "'' X ''" "''{{A}}''" "''A''" "Own (JStr ''a'')" "''/{{X}}''" "''/''" "''{{X}}''" ?t]
  have out: "interpolateString ?t ?ctx = ?o"
    using inst [THEN conjunct2, THEN conjunct2, THEN conjunct1, unfolded segs]
    by (simp add: trA trX' unbX bndA shown)
  have shape: "''{{X}}'' = ''{{'' @ ''X'' @ ''}}'' \<and> ''X'' \<noteq> [] \<and> CHR ''}'' \<notin> set ''X''"
    using inst [THEN conjunct2, THEN conjunct2, THEN conjunct2, THEN conjunct1, rule_format,
        of "''{{X}}''" "''X''", unfolded segs]
    by simp
  have h5: "'' X '' \<noteq> [] \<and> CHR ''}'' \<notin> set '' X '' \<and> get_property (variables ?ctx) (trim '' X '') = None"
    using unbX by (simp add: trX)
  have c5: "interpolateString (''{{'' @ '' X '' @ ''}}'' @ ''{{A}}'') ?ctx
              = ''{{'' @ '' X '' @ ''}}'' @ interpolateString ''{{A}}'' ?ctx"
    using inst [THEN conjunct2, THEN conjunct2, THEN conjunct2, THEN conjunct2, THEN conjunct1,
        rule_format, OF h5] .
  have h6: "''A'' \<noteq> [] \<and> CHR ''}'' \<notin> set ''A''
              \<and> get_property (variables ?ctx) (trim ''A'') = Some (Own (JStr ''a''))"
    using bndA by (simp add: trA)
  have c6: "interpolateString (''{{'' @ ''A'' @ ''}}'' @ ''/{{X}}'') ?ctx
              = value_text (Own (JStr ''a'')) @ interpolateString ''/{{X}}'' ?ctx"
    using inst [THEN conjunct2, THEN conjunct2, THEN conjunct2, THEN conjunct2, THEN conjunct2,
        THEN conjunct1, rule_format, OF h6] .
  have h7: "CHR ''{'' \<notin> set ''/''"
    by simp
  have c7: "interpolateString (''/'' @ ''{{X}}'') ?ctx = ''/'' @ interpolateString ''{{X}}'' ?ctx"
    using inst [THEN conjunct2, THEN conjunct2, THEN conjunct2, THEN conjunct2, THEN conjunct2,
        THEN conjunct2, THEN conjunct1, rule_format, OF h7] .
  have h8: "\<forall>n \<in> set (extractVariableNames ?o). get_property (variables ?ctx) n = None"
    using unbX by (simp add: names)
  have c8: "interpolateString ?o ?ctx = ?o"
    using fixed [THEN conjunct2, THEN conjunct2, THEN conjunct2, THEN conjunct2, THEN conjunct2,
        THEN conjunct2, THEN conjunct2, THEN conjunct1, THEN mp, OF h8] .
  have h9: "\<forall>n \<in> set (extractVariableNames (interpolateString ?t ?ctx)).
              get_property (variables ?ctx) n = None"
    using unbX by (simp add: out names)
  have c9: "interpolateString (interpolateString ?t ?ctx) ?ctx = interpolateString ?t ?ctx"
    using inst [THEN conjunct2, THEN conjunct2, THEN conjunct2, THEN conjunct2, THEN conjunct2,
        THEN conjunct2, THEN conjunct2, THEN conjunct2, THEN mp, OF h9] .
  have proto: "interpolateString ''{{constructor}}'' \<lparr>variables = Map.empty\<rparr>
                 = ''function Object() { [native code] }''"
    using interpolateString_unbound_unchanged
      [of "''{{constructor}}''" "\<lparr>variables = Map.empty\<rparr>", THEN conjunct2, THEN conjunct2, THEN conjunct1]
    by (simp add: match_placeholder_def trim_def is_js_whitespace_def get_property_def value_text_def)
  from c5 have c5': "interpolateString ''{{ X }}{{A}}'' ?ctx = ''{{ X }}'' @ interpolateString ''{{A}}'' ?ctx"
    by simp
  from c6 shown have c6': "interpolateString ?t ?ctx = ''a'' @ interpolateString ''/{{X}}'' ?ctx"
    by simp
  from c7 have c7': "interpolateString ''/{{X}}'' ?ctx = ''/'' @ interpolateString ''{{X}}'' ?ctx"
    by simp
  show ?thesis
    using segs out c8 c9 c5' c6' c7' proto by (intro conjI)
qed

section \<open>Properties of the outbound headers\<close>

lemma map_of_foldl_update:
  "map_of (foldl (\<lambda>r h. if P h then AList.update (f h) (g h) r else r) r0 hs) k =
     (case map_of (rev (map (\<lambda>h. (f h, g h)) (filter P hs))) k of
        Some v \<Rightarrow> Some v | None \<Rightarrow> map_of r0 k)"
proof (induction hs arbitrary: r0)
  case Nil
  then show ?case by simp
next
  case (Cons h hs)
  show ?case
    by (simp add: Cons.IH update_conv' map_of_append map_add_def split: option.splits)
qed

lemma keys_foldl_update:
  "fst ` set (foldl (\<lambda>r h. if P h then AList.update (f h) (g h) r else r) r0 hs) =
     fst ` set r0 \<union> f ` {h \<in> set hs. P h}"
  by (induction hs arbitrary: r0) (auto simp: dom_update image_iff)

lemma distinct_foldl_update:
  "distinct (map fst r0) \<Longrightarrow>
   distinct (map fst (foldl (\<lambda>r h. if P h then AList.update (f h) (g h) r else r) r0 hs))"
  by (induction hs arbitrary: r0) (auto simp: distinct_update)

lemma proxy_name_simps [simp]:
  "proxy_name a = proxy_name b \<longleftrightarrow> a = b"
  "proxy_name a \<noteq> ''Content-Type''"
  "proxy_name a \<noteq> ''X-GraphIt-Target''"
  "''Content-Type'' \<noteq> proxy_name a"
  "''X-GraphIt-Target'' \<noteq> proxy_name a"
  by (simp_all add: proxy_name_def)

lemma buildHeaders_proxy_unfold:
  "buildHeaders hs cfg ctx True ep =
     AList.update ''X-GraphIt-Target'' ep
       ((case buildAuthHeader (interpolateAuth cfg ctx) of
           Some (k, v) \<Rightarrow> AList.update (proxy_name k) v
         | None \<Rightarrow> id)
        (foldl (\<lambda>r h. if h_enabled h then AList.update (proxy_name (h_key h)) (h_value h) r else r)
           [(''Content-Type'', ''application/json'')] (interpolateHeaders hs ctx)))"
  unfolding buildHeaders_def set_header_def Let_def
  by (simp split: option.splits cong: if_cong)

lemma map_of_rev_prefixed:
  "map_of (rev (map (\<lambda>h. (proxy_name (f h), g h)) xs)) (proxy_name k)
     = map_of (rev (map (\<lambda>h. (f h, g h)) xs)) k"
  by (induction xs) (auto simp: map_of_append map_add_def split: option.splits)

text \<open>
  C7. In proxy mode the header object \<open>r\<close> built by \<open>buildHeaders\<close> always maps
  \<open>X-GraphIt-Target\<close> to the interpolated endpoint; for every enabled application header
  (after interpolation) the key \<open>X-GraphIt-Header-<name>\<close> is present; the derived auth
  header is present under \<open>X-GraphIt-Header-<its name>\<close> with its value; under any other
  renamed key the value is that of the last enabled header of that name; and the keys of
  \<open>r\<close> are exactly \<open>Content-Type\<close>, \<open>X-GraphIt-Target\<close> and these renamed keys, each once:
  no application or auth header is left under its original name.
\<close>

theorem buildHeaders_proxy:
  fixes hs cfg ctx ep
  defines "r \<equiv> buildHeaders hs cfg ctx True ep"
    and "app \<equiv> filter h_enabled (interpolateHeaders hs ctx)"
    and "authHeader \<equiv> buildAuthHeader (interpolateAuth cfg ctx)"
  shows "map_of r ''X-GraphIt-Target'' = Some ep
    \<and> (\<forall>h \<in> set app. ''X-GraphIt-Header-'' @ h_key h \<in> fst ` set r)
    \<and> (\<forall>k v. authHeader = Some (k, v) \<longrightarrow> map_of r (''X-GraphIt-Header-'' @ k) = Some v)
    \<and> (\<forall>k. (\<forall>v. authHeader \<noteq> Some (k, v)) \<longrightarrow>
           map_of r (''X-GraphIt-Header-'' @ k) = map_of (rev (map (\<lambda>h. (h_key h, h_value h)) app)) k)
    \<and> fst ` set r = {''Content-Type'', ''X-GraphIt-Target''}
         \<union> (\<lambda>h. ''X-GraphIt-Header-'' @ h_key h) ` set app
         \<union> (case authHeader of Some (k, v) \<Rightarrow> {''X-GraphIt-Header-'' @ k} | None \<Rightarrow> {})
    \<and> distinct (map fst r)"
  unfolding proxy_name_def [symmetric]
proof -
  let ?base = "foldl (\<lambda>r h. if h_enabled h then AList.update (proxy_name (h_key h)) (h_value h) r else r)
           [(''Content-Type'', ''application/json'')] (interpolateHeaders hs ctx)"
  have base_map: "map_of ?base (proxy_name k) = map_of (rev (map (\<lambda>h. (h_key h, h_value h)) app)) k" for k
    unfolding app_def
    by (simp add: map_of_foldl_update map_of_rev_prefixed split: option.splits)
  have base_keys: "fst ` set ?base = {''Content-Type''} \<union> (\<lambda>h. proxy_name (h_key h)) ` set app"
    unfolding app_def by (simp add: keys_foldl_update)
  have base_distinct: "distinct (map fst ?base)"
    by (rule distinct_foldl_update) simp
  show "map_of r ''X-GraphIt-Target'' = Some ep
    \<and> (\<forall>h \<in> set app. proxy_name (h_key h) \<in> fst ` set r)
    \<and> (\<forall>k v. authHeader = Some (k, v) \<longrightarrow> map_of r (proxy_name k) = Some v)
    \<and> (\<forall>k. (\<forall>v. authHeader \<noteq> Some (k, v)) \<longrightarrow>
           map_of r (proxy_name k) = map_of (rev (map (\<lambda>h. (h_key h, h_value h)) app)) k)
    \<and> fst ` set r = {''Content-Type'', ''X-GraphIt-Target''}
         \<union> (\<lambda>h. proxy_name (h_key h)) ` set app
         \<union> (case authHeader of Some (k, v) \<Rightarrow> {proxy_name k} | None \<Rightarrow> {})
    \<and> distinct (map fst r)"
  proof (cases authHeader)
    case None
    then have r: "r = AList.update ''X-GraphIt-Target'' ep ?base"
      unfolding r_def authHeader_def by (simp add: buildHeaders_proxy_unfold)
    show ?thesis
      unfolding r using None base_distinct
      by (auto simp: update_conv' dom_update base_keys base_map distinct_update)
  next
    case (Some kv)
    obtain ak av where kv: "kv = (ak, av)" by (cases kv)
    have r: "r = AList.update ''X-GraphIt-Target'' ep (AList.update (proxy_name ak) av ?base)"
      using Some kv unfolding r_def authHeader_def by (simp add: buildHeaders_proxy_unfold)
    show ?thesis
      unfolding r using Some kv base_distinct
      by (auto simp: update_conv' dom_update base_keys base_map distinct_update)
  qed
qed

theorem buildHeaders_proxy_witness:
  "filter h_enabled (interpolateHeaders
     [\<lparr>h_id = ''1'', h_key = ''Accept'', h_value = ''{{A}}'', h_enabled = True\<rparr>,
      \<lparr>h_id = ''2'', h_key = ''X-Off'', h_value = ''v'', h_enabled = False\<rparr>]
     \<lparr>variables = [''A'' \<mapsto> JStr ''json'']\<rparr>)
     = [\<lparr>h_id = ''1'', h_key = ''Accept'', h_value = ''json'', h_enabled = True\<rparr>]
   \<and> buildAuthHeader (interpolateAuth
        \<lparr>mode = ModeBearer, bearer = Some \<lparr>token = ''t0''\<rparr>, basic = None, apiKey = None\<rparr>
        \<lparr>variables = [''A'' \<mapsto> JStr ''json'']\<rparr>) = Some (''Authorization'', ''Bearer t0'')
   \<and> ''X-GraphIt-Header-Accept'' \<in> fst ` set (buildHeaders
     [\<lparr>h_id = ''1'', h_key = ''Accept'', h_value = ''{{A}}'', h_enabled = True\<rparr>,
      \<lparr>h_id = ''2'', h_key = ''X-Off'', h_value = ''v'', h_enabled = False\<rparr>]
     \<lparr>mode = ModeBearer, bearer = Some \<lparr>token = ''t0''\<rparr>, basic = None, apiKey = None\<rparr>
     \<lparr>variables = [''A'' \<mapsto> JStr ''json'']\<rparr> True ''https://x.test/graphql'')
   \<and> map_of (buildHeaders
     [\<lparr>h_id = ''1'', h_key = ''Accept'', h_value = ''{{A}}'', h_enabled = True\<rparr>,
      \<lparr>h_id = ''2'', h_key = ''X-Off'', h_value = ''v'', h_enabled = False\<rparr>]
     \<lparr>mode = ModeBearer, bearer = Some \<lparr>token = ''t0''\<rparr>, basic = None, apiKey = None\<rparr>
     \<lparr>variables = [''A'' \<mapsto> JStr ''json'']\<rparr> True ''https://x.test/graphql'')
       ''X-GraphIt-Header-Authorization'' = Some ''Bearer t0''
   \<and> map_of (buildHeaders
     [\<lparr>h_id = ''1'', h_key = ''Accept'', h_value = ''{{A}}'', h_enabled = True\<rparr>,
      \<lparr>h_id = ''2'', h_key = ''X-Off'', h_value = ''v'', h_enabled = False\<rparr>]
     \<lparr>mode = ModeBearer, bearer = Some \<lparr>token = ''t0''\<rparr>, basic = None, apiKey = None\<rparr>
     \<lparr>variables = [''A'' \<mapsto> JStr ''json'']\<rparr> True ''https://x.test/graphql'')
       ''X-GraphIt-Header-Accept'' = Some ''json''"
proof -
  let ?hs = "[\<lparr>h_id = ''1'', h_key = ''Accept'', h_value = ''{{A}}'', h_enabled = True\<rparr>,
      \<lparr>h_id = ''2'', h_key = ''X-Off'', h_value = ''v'', h_enabled = False\<rparr>]"
  let ?cfg = "\<lparr>mode = ModeBearer, bearer = Some \<lparr>token = ''t0''\<rparr>, basic = None, apiKey = None\<rparr>"
  let ?ctx = "\<lparr>variables = [''A'' \<mapsto> JStr ''json'']\<rparr>"
  let ?r = "buildHeaders ?hs ?cfg ?ctx True ''https://x.test/graphql''"
  have app: "filter h_enabled (interpolateHeaders ?hs ?ctx)
               = [\<lparr>h_id = ''1'', h_key = ''Accept'', h_value = ''json'', h_enabled = True\<rparr>]"
    by (simp add: interpolateHeaders_def interpolateString_def get_property_def object_prototype_methods_def value_text_def match_placeholder_def
          trim_def is_js_whitespace_def typeof_object_def)
  have ah: "buildAuthHeader (interpolateAuth ?cfg ?ctx) = Some (''Authorization'', ''Bearer t0'')"
    by (simp add: interpolateAuth_def buildAuthHeader_def interpolateString_def get_property_def object_prototype_methods_def
          value_text_def match_placeholder_def)
  let ?h = "\<lparr>h_id = ''1'', h_key = ''Accept'', h_value = ''json'', h_enabled = True\<rparr>"
  note inst = buildHeaders_proxy [of ?hs ?cfg ?ctx "''https://x.test/graphql''"]
  have member: "?h \<in> set (filter h_enabled (interpolateHeaders ?hs ?ctx))"
    unfolding app by simp
  have k1: "''X-GraphIt-Header-'' @ h_key ?h \<in> fst ` set ?r"
    using inst [THEN conjunct2, THEN conjunct1, rule_format, OF member] .
  have k2: "map_of ?r (''X-GraphIt-Header-'' @ ''Authorization'') = Some ''Bearer t0''"
    using inst [THEN conjunct2, THEN conjunct2, THEN conjunct1, rule_format, OF ah] .
  have other: "\<forall>v. buildAuthHeader (interpolateAuth ?cfg ?ctx) \<noteq> Some (''Accept'', v)"
    unfolding ah by simp
  have "map_of ?r (''X-GraphIt-Header-'' @ ''Accept'')
          = map_of (rev (map (\<lambda>h. (h_key h, h_value h))
                       (filter h_enabled (interpolateHeaders ?hs ?ctx)))) ''Accept''"
    using inst [THEN conjunct2, THEN conjunct2, THEN conjunct2, THEN conjunct1, rule_format,
                OF other [rule_format]] .
  then have k3: "map_of ?r (''X-GraphIt-Header-'' @ ''Accept'') = Some ''json''"
    unfolding app by simp
  from k1 have k1': "''X-GraphIt-Header-Accept'' \<in> fst ` set ?r" by simp
  from k2 have k2': "map_of ?r ''X-GraphIt-Header-Authorization'' = Some ''Bearer t0''" by simp
  from k3 have k3': "map_of ?r ''X-GraphIt-Header-Accept'' = Some ''json''" by simp
  from app ah k1' k2' k3' show ?thesis by (intro conjI)
qed

lemma update_entry:
  "(k, v) \<in> set (AList.update k' v' al) \<Longrightarrow> (k = k' \<and> v = v') \<or> (k, v) \<in> set al"
  by (induction al) (auto split: if_splits)

lemma delete_entry: "(k, v) \<in> set (AList.delete k' al) \<Longrightarrow> (k, v) \<in> set al"
  by (induction al) (auto split: if_splits)

lemma foldl_update_entry:
  "(k, v) \<in> set (foldl (\<lambda>r h. if P h then AList.update (f h) (g h) r else r) r0 hs) \<Longrightarrow>
   (k, v) \<in> set r0 \<or> (\<exists>h \<in> set hs. P h \<and> k = f h \<and> v = g h)"
proof (induction hs arbitrary: r0)
  case Nil
  then show ?case by simp
next
  case (Cons h hs)
  show ?case
  proof (cases "P h")
    case True
    with Cons.prems Cons.IH [of "AList.update (f h) (g h) r0"]
    have "(k, v) \<in> set (AList.update (f h) (g h) r0) \<or> (\<exists>h \<in> set hs. P h \<and> k = f h \<and> v = g h)"
      by simp
    then show ?thesis using True update_entry [of k v "f h" "g h" r0] by auto
  next
    case False
    with Cons.prems Cons.IH [of r0] show ?thesis by auto
  qed
qed

lemma buildHeaders_unfold:
  "buildHeaders hs cfg ctx p ep =
     (if p then AList.update ''X-GraphIt-Target'' ep else id)
       ((case buildAuthHeader (interpolateAuth cfg ctx) of
           Some (k, v) \<Rightarrow> AList.update (if p then ''X-GraphIt-Header-'' @ k else k) v
         | None \<Rightarrow> id)
        (foldl (\<lambda>r h. if h_enabled h
                       then AList.update (if p then ''X-GraphIt-Header-'' @ h_key h else h_key h) (h_value h) r
                       else r)
           [(''Content-Type'', ''application/json'')] (interpolateHeaders hs ctx)))"
  unfolding buildHeaders_def set_header_def proxy_name_def Let_def
  by (cases p) (simp_all split: option.splits cong: if_cong)

lemma buildHeaders_no_auth_entry:
  assumes none: "buildAuthHeader (interpolateAuth cfg ctx) = None"
    and kv: "(k, v) \<in> set (buildHeaders hs cfg ctx p ep)"
  shows "(k = ''Content-Type'' \<and> v = ''application/json'')
       \<or> (p \<and> k = ''X-GraphIt-Target'' \<and> v = ep)
       \<or> (\<exists>h \<in> set (interpolateHeaders hs ctx). h_enabled h
             \<and> k = (if p then ''X-GraphIt-Header-'' @ h_key h else h_key h) \<and> v = h_value h)"
proof -
  let ?base = "foldl (\<lambda>r h. if h_enabled h
                       then AList.update (if p then ''X-GraphIt-Header-'' @ h_key h else h_key h) (h_value h) r
                       else r)
           [(''Content-Type'', ''application/json'')] (interpolateHeaders hs ctx)"
  have r: "buildHeaders hs cfg ctx p ep = (if p then AList.update ''X-GraphIt-Target'' ep ?base else ?base)"
    by (simp add: buildHeaders_unfold none)
  have "(p \<and> k = ''X-GraphIt-Target'' \<and> v = ep) \<or> (k, v) \<in> set ?base"
    using kv unfolding r using update_entry [of k v "''X-GraphIt-Target''" ep ?base]
    by (cases p) auto
  then show ?thesis
  proof
    assume "p \<and> k = ''X-GraphIt-Target'' \<and> v = ep"
    then show ?thesis by blast
  next
    assume "(k, v) \<in> set ?base"
    then have "(k, v) \<in> set [(''Content-Type'', ''application/json'')]
        \<or> (\<exists>h \<in> set (interpolateHeaders hs ctx). h_enabled h
             \<and> k = (if p then ''X-GraphIt-Header-'' @ h_key h else h_key h) \<and> v = h_value h)"
      by (rule foldl_update_entry)
    then show ?thesis
    proof
      assume "(k, v) \<in> set [(''Content-Type'', ''application/json'')]"
      then have "k = ''Content-Type'' \<and> v = ''application/json''" by simp
      then show ?thesis by blast
    next
      assume "\<exists>h \<in> set (interpolateHeaders hs ctx). h_enabled h
             \<and> k = (if p then ''X-GraphIt-Header-'' @ h_key h else h_key h) \<and> v = h_value h"
      then show ?thesis by blast
    qed
  qed
qed

lemma buildHeaders_auth_entry:
  assumes some: "buildAuthHeader (interpolateAuth cfg ctx) = Some (k, v)"
  shows "map_of (buildHeaders hs cfg ctx p ep) (if p then ''X-GraphIt-Header-'' @ k else k) = Some v"
  by (cases p) (simp_all add: buildHeaders_unfold some update_conv')

section \<open>Properties of the request executor\<close>

subsection \<open>Concrete runs\<close>

lemma sample_endpoint:
  "interpolateString ''{{API_URL}}/graphql'' \<lparr>variables = [''API_URL'' \<mapsto> JStr ''https://x.test'']\<rparr>
     = ''https://x.test/graphql''"
  by (simp add: interpolateString_def get_property_def object_prototype_methods_def value_text_def match_placeholder_def trim_def is_js_whitespace_def
        typeof_object_def)

lemma sample_variables:
  "interpolateString ''{}'' ctx = ''{}''"
  by (simp add: interpolateString_def get_property_def object_prototype_methods_def value_text_def match_placeholder_def)

lemma sample_url:
  "sample_new_URL ''https://x.test/graphql''
     = Inr \<lparr>url_base = ''https://x.test/graphql'', searchParams = [], url_hash = []\<rparr>"
  by (simp add: sample_new_URL_def)

lemma sample_query_encoded: "form_encode ''{ me { id } }'' = ''%7B+me+%7B+id+%7D+%7D''"
  by (simp add: form_encode_def form_encode_unit_def is_alnum_def utf8_bytes_def percent_def
        HEX_digit_def)

lemma sample_headers:
  "buildHeaders [] no_auth ctx False ep = [(''Content-Type'', ''application/json'')]"
  by (simp add: buildHeaders_def interpolateHeaders_def interpolateAuth_def buildAuthHeader_def
        no_auth_def)

lemma not_a_url:
  "interpolateString ''not a url'' ctx = ''not a url''"
  "\<not> isValidUrl sample_platform ''not a url''"
  by (simp_all add: interpolateString_def get_property_def object_prototype_methods_def value_text_def match_placeholder_def isValidUrl_def
        sample_platform_def sample_new_URL_def)

lemma sample_request_answered:
  "fst (sendRequest sample_platform sample_options) = Inr sample_page"
  "fst (sendRequest unreadable_body sample_options)
     = Inr (sample_page\<lparr>resp_text := Inl (Error ''terminated'')\<rparr>)"
  by (simp_all add: sendRequest_def Let_def sample_options_def sample_endpoint isValidUrl_def
        unreadable_body_def sample_platform_def sample_url executePostRequest_def do_fetch_def)

subsection \<open>Failures are results\<close>

lemma executeRequest_calls: "snd (executeRequest w opts) = snd (sendRequest w opts)"
  by (simp add: executeRequest_def Let_def split: prod.splits sum.splits)




lemma sendRequest_invalid:
  "interpolateString (endpoint opts) (context opts) = [] \<or>
   \<not> isValidUrl w (interpolateString (endpoint opts) (context opts))
   \<Longrightarrow> sendRequest w opts = (Inl (Error ''Invalid endpoint URL''), [])"
  by (auto simp: sendRequest_def Let_def)

text \<open>
  C5. When the interpolated endpoint is empty or is rejected by the \<open>URL\<close> constructor,
  \<open>executeRequest\<close> makes no call of \<open>fetch\<close> and resolves with error
  \<open>Invalid endpoint URL\<close>, response \<open>null\<close>, no headers, status 0, status text \<open>Error\<close>
  and size 0; duration and timestamp are the clock's readings.
\<close>

theorem invalid_endpoint_fails_fast:
  assumes "interpolateString (endpoint opts) (context opts) = [] \<or>
           \<not> isValidUrl w (interpolateString (endpoint opts) (context opts))"
  shows "executeRequest w opts =
           (Inr \<lparr>response = JNull, headers = [],
                 stats = Some \<lparr>status = 0, statusText = ''Error'',
                               duration = performance_now w 1 - performance_now w 0,
                               stat_size = 0, timestamp = Date_now w\<rparr>,
                 error = Some ''Invalid endpoint URL''\<rparr>,
            [])"
  using sendRequest_invalid [OF assms]
  by (simp add: executeRequest_def failure_def Let_def)

theorem invalid_endpoint_fails_fast_witness:
  "\<not> isValidUrl sample_platform
        (interpolateString (endpoint (sample_options\<lparr>endpoint := ''not a url''\<rparr>))
           (context (sample_options\<lparr>endpoint := ''not a url''\<rparr>)))
   \<and> executeRequest sample_platform (sample_options\<lparr>endpoint := ''not a url''\<rparr>) =
       (Inr \<lparr>response = JNull, headers = [],
             stats = Some \<lparr>status = 0, statusText = ''Error'', duration = 40, stat_size = 0,
                           timestamp = 1700000000000\<rparr>,
             error = Some ''Invalid endpoint URL''\<rparr>,
        [])"
proof -
  let ?bad = "sample_options\<lparr>endpoint := ''not a url''\<rparr>"
  have h: "\<not> isValidUrl sample_platform (interpolateString (endpoint ?bad) (context ?bad))"
    by (simp add: not_a_url)
  then have "interpolateString (endpoint ?bad) (context ?bad) = [] \<or>
             \<not> isValidUrl sample_platform (interpolateString (endpoint ?bad) (context ?bad))" ..
  from invalid_endpoint_fails_fast [OF this] h show ?thesis
    by (simp add: sample_platform_def)
qed

text \<open>
  C4. When a response has arrived, its body text has been read and \<open>JSON.parse\<close> rejects
  that text, \<open>executeRequest\<close> resolves with a response object whose only content is an
  \<open>errors\<close> array of the single entry \<open>Failed to parse response as JSON\<close>, with error
  \<open>null\<close>, and with the headers, status and status text of the response, the time up to its
  arrival as duration and the UTF-8 length of the body as size.
\<close>

theorem nonjson_body_is_success:
  assumes "sendRequest w opts = (Inr resp, calls)"
    and "resp_text resp = Inr body"
    and "JSON_parse w body = Inl e"
  shows "executeRequest w opts =
           (Inr \<lparr>response = JObj [(''errors'',
                    JArr [JObj [(''message'', JStr ''Failed to parse response as JSON'')]])],
                 headers = resp_headers resp,
                 stats = Some \<lparr>status = resp_status resp, statusText = resp_statusText resp,
                               duration = performance_now w 1 - performance_now w 0,
                               stat_size = utf8_length body, timestamp = Date_now w\<rparr>,
                 error = None\<rparr>,
            calls)"
  using assms by (simp add: executeRequest_def readResponse_def Let_def)

theorem nonjson_body_is_success_witness:
  "fst (sendRequest sample_platform sample_options) = Inr sample_page
   \<and> resp_text sample_page = Inr ''<html></html>''
   \<and> JSON_parse sample_platform ''<html></html>'' = Inl (Error ''Unexpected token'')
   \<and> fst (executeRequest sample_platform sample_options) =
       Inr \<lparr>response = JObj [(''errors'',
                  JArr [JObj [(''message'', JStr ''Failed to parse response as JSON'')]])],
            headers = [(''content-type'', ''text/html'')],
            stats = Some \<lparr>status = 200, statusText = ''OK'', duration = 40, stat_size = 13,
                          timestamp = 1700000000000\<rparr>,
            error = None\<rparr>"
proof -
  have s: "sendRequest sample_platform sample_options
             = (Inr sample_page, snd (sendRequest sample_platform sample_options))"
    using sample_request_answered(1) by (simp add: prod_eq_iff)
  have t: "resp_text sample_page = Inr ''<html></html>''"
    by (simp add: sample_page_def)
  have p: "JSON_parse sample_platform ''<html></html>'' = Inl (Error ''Unexpected token'')"
    by (simp add: sample_platform_def sample_JSON_parse_def)
  have "utf8_length ''<html></html>'' = 13"
    by (simp add: utf8_length_def utf8_bytes_def)
  with nonjson_body_is_success [OF s t p] sample_request_answered(1) t p show ?thesis
    by (simp add: sample_platform_def sample_page_def)
qed





subsection \<open>Percent-encoding\<close>

















subsection \<open>The query string of a GET\<close>





lemma searchParams_set_base [simp]:
  "url_base (searchParams_set n v u) = url_base u"
  "url_hash (searchParams_set n v u) = url_hash u"
  by (simp_all add: searchParams_set_def)






subsection \<open>The headers that are sent\<close>

lemma sendRequest_headers:
  assumes "req \<in> set (snd (sendRequest w opts))"
    and "(k, v) \<in> set (fr_headers req)"
  shows "(useProxy opts \<and> httpMethod opts = GET \<and> k = ''X-GraphIt-Method'' \<and> v = ''GET'')
       \<or> (k, v) \<in> set (buildHeaders (opt_headers opts) (auth opts) (context opts) (useProxy opts)
                          (interpolateString (endpoint opts) (context opts)))"
proof -
  let ?ep = "interpolateString (endpoint opts) (context opts)"
  let ?hdrs = "buildHeaders (opt_headers opts) (auth opts) (context opts) (useProxy opts) ?ep"
  consider (get) "httpMethod opts = GET" "req \<in> set (snd (executeGetRequest w ?ep opts ?hdrs (timeout opts)))"
    | (multi) "req \<in> set (snd (executeMultipartRequest w ?ep opts ?hdrs (timeout opts)))"
    | (post) "req \<in> set (snd (executePostRequest w ?ep opts ?hdrs (useProxy opts) (timeout opts)))"
    using assms(1) by (auto simp: sendRequest_def Let_def split: if_splits)
  then show ?thesis
  proof cases
    case get
    from get(2) have "fr_headers req = AList.delete ''Content-Type''
        (if useProxy opts then AList.update ''X-GraphIt-Method'' ''GET'' ?hdrs else ?hdrs)"
      by (auto simp: executeGetRequest_def Let_def do_fetch_def split: sum.splits if_splits)
    with assms(2) have "(k, v) \<in> set (if useProxy opts then AList.update ''X-GraphIt-Method'' ''GET'' ?hdrs else ?hdrs)"
      using delete_entry by metis
    then show ?thesis
      using get(1) update_entry [of k v "''X-GraphIt-Method''" "''GET''" ?hdrs]
      by (cases "useProxy opts") auto
  next
    case multi
    then have "fr_headers req = AList.delete ''Content-Type'' ?hdrs"
      by (auto simp: executeMultipartRequest_def Let_def do_fetch_def split: sum.splits prod.splits)
    with assms(2) show ?thesis using delete_entry by metis
  next
    case post
    then have "fr_headers req = ?hdrs"
      by (simp add: executePostRequest_def Let_def do_fetch_def)
    with assms(2) show ?thesis by simp
  qed
qed

text \<open>
  C10. The derived auth header exists only for non-empty credentials. Let \<open>a\<close> be the auth
  configuration after interpolation. (1) \<open>buildAuthHeader a\<close> is not \<open>null\<close> exactly when
  the mode is bearer and the token is non-empty, or the mode is basic and username and
  password are both non-empty, or the mode is api-key and key and value are non-empty and
  \<open>addTo\<close> is \<open>header\<close>. (2) When it is not \<open>null\<close> it is \<open>Authorization: Bearer <token>\<close>,
  \<open>Authorization: Basic <base64(user:pass)>\<close> or the key/value pair itself. When it is
  \<open>null\<close>, (3) \<open>buildHeaders\<close> returns what it returns for an auth configuration of mode
  none; (4) every entry of the header object it returns is the default \<open>Content-Type\<close>,
  the proxy target or the key and value of an enabled application header; and (5) every
  header of every \<open>fetch\<close> that \<open>executeRequest\<close> makes is one of these or the proxy's
  \<open>X-GraphIt-Method\<close>: nothing is sent that comes from the credentials. (6) When it is
  not \<open>null\<close>, the header object holds its value under its key (renamed in proxy mode).
\<close>

theorem buildAuthHeader_requires_credentials:
  fixes cfg ctx
  defines "a \<equiv> interpolateAuth cfg ctx"
  shows
   "(buildAuthHeader a \<noteq> None \<longleftrightarrow>
        (mode a = ModeBearer \<and> (\<exists>b. bearer a = Some b \<and> token b \<noteq> []))
      \<or> (mode a = ModeBasic \<and> (\<exists>b. basic a = Some b \<and> username b \<noteq> [] \<and> password b \<noteq> []))
      \<or> (mode a = ModeApiKey
           \<and> (\<exists>q. apiKey a = Some q \<and> ak_key q \<noteq> [] \<and> ak_value q \<noteq> [] \<and> addTo q = AddToHeader)))
    \<and> (\<forall>k v. buildAuthHeader a = Some (k, v) \<longrightarrow>
         (mode a = ModeBearer \<and> k = ''Authorization''
            \<and> (\<exists>b. bearer a = Some b \<and> v = ''Bearer '' @ token b))
       \<or> (mode a = ModeBasic \<and> k = ''Authorization''
            \<and> (\<exists>b. basic a = Some b \<and> v = ''Basic '' @ btoa (username b @ '':'' @ password b)))
       \<or> (mode a = ModeApiKey \<and> (\<exists>q. apiKey a = Some q \<and> k = ak_key q \<and> v = ak_value q)))
    \<and> (buildAuthHeader a = None \<longrightarrow>
         (\<forall>hs p ep. buildHeaders hs cfg ctx p ep = buildHeaders hs no_auth ctx p ep))
    \<and> (buildAuthHeader a = None \<longrightarrow>
         (\<forall>hs p ep k v. (k, v) \<in> set (buildHeaders hs cfg ctx p ep) \<longrightarrow>
              (k = ''Content-Type'' \<and> v = ''application/json'')
            \<or> (p \<and> k = ''X-GraphIt-Target'' \<and> v = ep)
            \<or> (\<exists>h \<in> set (interpolateHeaders hs ctx). h_enabled h
                  \<and> k = (if p then ''X-GraphIt-Header-'' @ h_key h else h_key h)
                  \<and> v = h_value h)))
    \<and> (buildAuthHeader a = None \<longrightarrow>
         (\<forall>w opts req k v.
              auth opts = cfg \<and> context opts = ctx
              \<and> req \<in> set (snd (executeRequest w opts)) \<and> (k, v) \<in> set (fr_headers req) \<longrightarrow>
              (k = ''Content-Type'' \<and> v = ''application/json'')
            \<or> (useProxy opts \<and> k = ''X-GraphIt-Target''
                  \<and> v = interpolateString (endpoint opts) ctx)
            \<or> (useProxy opts \<and> httpMethod opts = GET \<and> k = ''X-GraphIt-Method'' \<and> v = ''GET'')
            \<or> (\<exists>h \<in> set (interpolateHeaders (opt_headers opts) ctx). h_enabled h
                  \<and> k = (if useProxy opts then ''X-GraphIt-Header-'' @ h_key h else h_key h)
                  \<and> v = h_value h)))
    \<and> (\<forall>k v hs p ep. buildAuthHeader a = Some (k, v) \<longrightarrow>
         map_of (buildHeaders hs cfg ctx p ep) (if p then ''X-GraphIt-Header-'' @ k else k) = Some v)"
proof (intro conjI)
  show "buildAuthHeader a \<noteq> None \<longleftrightarrow>
        (mode a = ModeBearer \<and> (\<exists>b. bearer a = Some b \<and> token b \<noteq> []))
      \<or> (mode a = ModeBasic \<and> (\<exists>b. basic a = Some b \<and> username b \<noteq> [] \<and> password b \<noteq> []))
      \<or> (mode a = ModeApiKey
           \<and> (\<exists>q. apiKey a = Some q \<and> ak_key q \<noteq> [] \<and> ak_value q \<noteq> [] \<and> addTo q = AddToHeader))"
    by (cases "mode a") (auto simp: buildAuthHeader_def split: option.splits)
next
  show "\<forall>k v. buildAuthHeader a = Some (k, v) \<longrightarrow>
         (mode a = ModeBearer \<and> k = ''Authorization''
            \<and> (\<exists>b. bearer a = Some b \<and> v = ''Bearer '' @ token b))
       \<or> (mode a = ModeBasic \<and> k = ''Authorization''
            \<and> (\<exists>b. basic a = Some b \<and> v = ''Basic '' @ btoa (username b @ '':'' @ password b)))
       \<or> (mode a = ModeApiKey \<and> (\<exists>q. apiKey a = Some q \<and> k = ak_key q \<and> v = ak_value q))"
    by (cases "mode a") (auto simp: buildAuthHeader_def split: option.splits if_splits)
next
  have none: "buildAuthHeader (interpolateAuth no_auth ctx) = None"
    by (simp add: buildAuthHeader_def interpolateAuth_def no_auth_def)
  show "buildAuthHeader a = None \<longrightarrow>
         (\<forall>hs p ep. buildHeaders hs cfg ctx p ep = buildHeaders hs no_auth ctx p ep)"
    unfolding a_def buildHeaders_def Let_def by (simp add: none)
next
  show "buildAuthHeader a = None \<longrightarrow>
         (\<forall>hs p ep k v. (k, v) \<in> set (buildHeaders hs cfg ctx p ep) \<longrightarrow>
              (k = ''Content-Type'' \<and> v = ''application/json'')
            \<or> (p \<and> k = ''X-GraphIt-Target'' \<and> v = ep)
            \<or> (\<exists>h \<in> set (interpolateHeaders hs ctx). h_enabled h
                  \<and> k = (if p then ''X-GraphIt-Header-'' @ h_key h else h_key h)
                  \<and> v = h_value h))"
    unfolding a_def using buildHeaders_no_auth_entry by blast
next
  show "buildAuthHeader a = None \<longrightarrow>
         (\<forall>w opts req k v.
              auth opts = cfg \<and> context opts = ctx
              \<and> req \<in> set (snd (executeRequest w opts)) \<and> (k, v) \<in> set (fr_headers req) \<longrightarrow>
              (k = ''Content-Type'' \<and> v = ''application/json'')
            \<or> (useProxy opts \<and> k = ''X-GraphIt-Target''
                  \<and> v = interpolateString (endpoint opts) ctx)
            \<or> (useProxy opts \<and> httpMethod opts = GET \<and> k = ''X-GraphIt-Method'' \<and> v = ''GET'')
            \<or> (\<exists>h \<in> set (interpolateHeaders (opt_headers opts) ctx). h_enabled h
                  \<and> k = (if useProxy opts then ''X-GraphIt-Header-'' @ h_key h else h_key h)
                  \<and> v = h_value h))"
  proof (intro impI allI)
    fix w :: platform and opts :: RequestOptions and req k v
    assume none: "buildAuthHeader a = None"
    assume h: "auth opts = cfg \<and> context opts = ctx
              \<and> req \<in> set (snd (executeRequest w opts)) \<and> (k, v) \<in> set (fr_headers req)"
    then have req: "req \<in> set (snd (sendRequest w opts))" and kv: "(k, v) \<in> set (fr_headers req)"
      by (simp_all add: executeRequest_calls)
    from sendRequest_headers [OF req kv] h
    have "(useProxy opts \<and> httpMethod opts = GET \<and> k = ''X-GraphIt-Method'' \<and> v = ''GET'')
       \<or> (k, v) \<in> set (buildHeaders (opt_headers opts) cfg ctx (useProxy opts)
                          (interpolateString (endpoint opts) ctx))"
      by simp
    then show "(k = ''Content-Type'' \<and> v = ''application/json'')
            \<or> (useProxy opts \<and> k = ''X-GraphIt-Target''
                  \<and> v = interpolateString (endpoint opts) ctx)
            \<or> (useProxy opts \<and> httpMethod opts = GET \<and> k = ''X-GraphIt-Method'' \<and> v = ''GET'')
            \<or> (\<exists>h \<in> set (interpolateHeaders (opt_headers opts) ctx). h_enabled h
                  \<and> k = (if useProxy opts then ''X-GraphIt-Header-'' @ h_key h else h_key h)
                  \<and> v = h_value h)"
    proof
      assume "useProxy opts \<and> httpMethod opts = GET \<and> k = ''X-GraphIt-Method'' \<and> v = ''GET''"
      then show ?thesis by blast
    next
      assume "(k, v) \<in> set (buildHeaders (opt_headers opts) cfg ctx (useProxy opts)
                          (interpolateString (endpoint opts) ctx))"
      from buildHeaders_no_auth_entry [OF none [unfolded a_def] this]
      show ?thesis by blast
    qed
  qed
next
  show "\<forall>k v hs p ep. buildAuthHeader a = Some (k, v) \<longrightarrow>
         map_of (buildHeaders hs cfg ctx p ep) (if p then ''X-GraphIt-Header-'' @ k else k) = Some v"
    unfolding a_def using buildHeaders_auth_entry by blast
qed

theorem buildAuthHeader_requires_credentials_witness:
  "buildAuthHeader (interpolateAuth
      \<lparr>mode = ModeBasic, bearer = Some \<lparr>token = ''t0''\<rparr>,
       basic = Some \<lparr>username = ''{{U}}'', password = ''''\<rparr>, apiKey = None\<rparr>
      \<lparr>variables = [''U'' \<mapsto> JStr ''ann'']\<rparr>) = None
   \<and> buildHeaders [] \<lparr>mode = ModeBasic, bearer = Some \<lparr>token = ''t0''\<rparr>,
       basic = Some \<lparr>username = ''{{U}}'', password = ''''\<rparr>, apiKey = None\<rparr>
      \<lparr>variables = [''U'' \<mapsto> JStr ''ann'']\<rparr> False ''https://x.test''
      = buildHeaders [] no_auth \<lparr>variables = [''U'' \<mapsto> JStr ''ann'']\<rparr> False ''https://x.test''
   \<and> (\<forall>v. (''Authorization'', v) \<notin> set (buildHeaders
        [\<lparr>h_id = ''1'', h_key = ''Accept'', h_value = ''{{U}}'', h_enabled = True\<rparr>]
        \<lparr>mode = ModeBasic, bearer = Some \<lparr>token = ''t0''\<rparr>,
         basic = Some \<lparr>username = ''{{U}}'', password = ''''\<rparr>, apiKey = None\<rparr>
        \<lparr>variables = [''U'' \<mapsto> JStr ''ann'']\<rparr> False ''https://x.test''))
   \<and> length (snd (executeRequest sample_platform
        (sample_options\<lparr>auth := \<lparr>mode = ModeBearer, bearer = Some \<lparr>token = ''''\<rparr>,
           basic = None, apiKey = None\<rparr>\<rparr>))) = 1
   \<and> (\<forall>v. (''Authorization'', v) \<notin> set (fr_headers (hd (snd (executeRequest sample_platform
        (sample_options\<lparr>auth := \<lparr>mode = ModeBearer, bearer = Some \<lparr>token = ''''\<rparr>,
           basic = None, apiKey = None\<rparr>\<rparr>))))))
   \<and> buildAuthHeader (interpolateAuth
      \<lparr>mode = ModeApiKey, bearer = None, basic = None,
       apiKey = Some \<lparr>ak_key = ''X-Key'', ak_value = ''{{U}}'', addTo = AddToHeader\<rparr>\<rparr>
      \<lparr>variables = [''U'' \<mapsto> JStr ''ann'']\<rparr>) = Some (''X-Key'', ''ann'')
   \<and> mode (interpolateAuth
      \<lparr>mode = ModeApiKey, bearer = None, basic = None,
       apiKey = Some \<lparr>ak_key = ''X-Key'', ak_value = ''{{U}}'', addTo = AddToHeader\<rparr>\<rparr>
      \<lparr>variables = [''U'' \<mapsto> JStr ''ann'']\<rparr>) = ModeApiKey
   \<and> map_of (buildHeaders [] \<lparr>mode = ModeApiKey, bearer = None, basic = None,
       apiKey = Some \<lparr>ak_key = ''X-Key'', ak_value = ''{{U}}'', addTo = AddToHeader\<rparr>\<rparr>
      \<lparr>variables = [''U'' \<mapsto> JStr ''ann'']\<rparr> False ''https://x.test'') ''X-Key'' = Some ''ann''"
proof -
  let ?ctx = "\<lparr>variables = [''U'' \<mapsto> JStr ''ann'']\<rparr>"
  let ?c1 = "\<lparr>mode = ModeBasic, bearer = Some \<lparr>token = ''t0''\<rparr>,
       basic = Some \<lparr>username = ''{{U}}'', password = ''''\<rparr>, apiKey = None\<rparr>"
  let ?c2 = "\<lparr>mode = ModeApiKey, bearer = None, basic = None,
       apiKey = Some \<lparr>ak_key = ''X-Key'', ak_value = ''{{U}}'', addTo = AddToHeader\<rparr>\<rparr>"
  let ?c3 = "\<lparr>mode = ModeBearer, bearer = Some \<lparr>token = ''''\<rparr>, basic = None, apiKey = None\<rparr>"
  let ?hs = "[\<lparr>h_id = ''1'', h_key = ''Accept'', h_value = ''{{U}}'', h_enabled = True\<rparr>]"
  let ?opts = "sample_options\<lparr>auth := ?c3\<rparr>"
  let ?sctx = "\<lparr>variables = [''API_URL'' \<mapsto> JStr ''https://x.test'']\<rparr>"
  have n1: "buildAuthHeader (interpolateAuth ?c1 ?ctx) = None"
    by (simp add: interpolateAuth_def buildAuthHeader_def interpolateString_def get_property_def
          object_prototype_methods_def value_text_def match_placeholder_def)
  have s2: "buildAuthHeader (interpolateAuth ?c2 ?ctx) = Some (''X-Key'', ''ann'')"
    by (simp add: interpolateAuth_def buildAuthHeader_def interpolateString_def get_property_def
          object_prototype_methods_def value_text_def match_placeholder_def trim_def
          is_js_whitespace_def typeof_object_def)
  have n3: "buildAuthHeader (interpolateAuth ?c3 ?sctx) = None"
    by (simp add: interpolateAuth_def buildAuthHeader_def interpolateString_def)
  have e1: "buildHeaders [] ?c1 ?ctx False ''https://x.test''
              = buildHeaders [] no_auth ?ctx False ''https://x.test''"
    using buildAuthHeader_requires_credentials [of ?c1 ?ctx,
            THEN conjunct2, THEN conjunct2, THEN conjunct1, rule_format, OF n1] .
  have app: "interpolateHeaders ?hs ?ctx
               = [\<lparr>h_id = ''1'', h_key = ''Accept'', h_value = ''ann'', h_enabled = True\<rparr>]"
    by (simp add: interpolateHeaders_def interpolateString_def get_property_def
          object_prototype_methods_def value_text_def match_placeholder_def trim_def
          is_js_whitespace_def typeof_object_def)
  have a1: "(''Authorization'', v) \<notin> set (buildHeaders ?hs ?c1 ?ctx False ''https://x.test'')" for v
  proof
    assume "(''Authorization'', v) \<in> set (buildHeaders ?hs ?c1 ?ctx False ''https://x.test'')"
    from buildAuthHeader_requires_credentials [of ?c1 ?ctx,
            THEN conjunct2, THEN conjunct2, THEN conjunct2, THEN conjunct1, rule_format,
            OF n1 this]
    show False unfolding app by simp
  qed
  have calls: "snd (executeRequest sample_platform ?opts)
                 = [hd (snd (executeRequest sample_platform ?opts))]
               \<and> length (snd (executeRequest sample_platform ?opts)) = 1"
    by (simp add: executeRequest_calls sendRequest_def Let_def sample_options_def sample_endpoint
          isValidUrl_def sample_platform_def sample_url executePostRequest_def do_fetch_def)
  then have req: "hd (snd (executeRequest sample_platform ?opts))
                    \<in> set (snd (executeRequest sample_platform ?opts))"
    by (metis list.set_intros(1))
  have cfg: "auth ?opts = ?c3" and ctx: "context ?opts = ?sctx"
    and direct: "\<not> useProxy ?opts" and plain: "opt_headers ?opts = []"
    by (simp_all add: sample_options_def)
  have a3: "(''Authorization'', v)
              \<notin> set (fr_headers (hd (snd (executeRequest sample_platform ?opts))))" for v
  proof
    assume "(''Authorization'', v) \<in> set (fr_headers (hd (snd (executeRequest sample_platform ?opts))))"
    with cfg ctx req
    have h: "auth ?opts = ?c3 \<and> context ?opts = ?sctx
             \<and> hd (snd (executeRequest sample_platform ?opts))
                 \<in> set (snd (executeRequest sample_platform ?opts))
             \<and> (''Authorization'', v)
                 \<in> set (fr_headers (hd (snd (executeRequest sample_platform ?opts))))"
      by blast
    from buildAuthHeader_requires_credentials [of ?c3 ?sctx,
            THEN conjunct2, THEN conjunct2, THEN conjunct2, THEN conjunct2, THEN conjunct1,
            rule_format, OF n3 h]
    show False using direct plain by (simp add: interpolateHeaders_def)
  qed
  have "(mode (interpolateAuth ?c2 ?ctx) = ModeBearer \<and> ''X-Key'' = ''Authorization''
            \<and> (\<exists>b. bearer (interpolateAuth ?c2 ?ctx) = Some b \<and> ''ann'' = ''Bearer '' @ token b))
       \<or> (mode (interpolateAuth ?c2 ?ctx) = ModeBasic \<and> ''X-Key'' = ''Authorization''
            \<and> (\<exists>b. basic (interpolateAuth ?c2 ?ctx) = Some b
                  \<and> ''ann'' = ''Basic '' @ btoa (username b @ '':'' @ password b)))
       \<or> (mode (interpolateAuth ?c2 ?ctx) = ModeApiKey
            \<and> (\<exists>q. apiKey (interpolateAuth ?c2 ?ctx) = Some q \<and> ''X-Key'' = ak_key q \<and> ''ann'' = ak_value q))"
    using buildAuthHeader_requires_credentials [of ?c2 ?ctx,
            THEN conjunct2, THEN conjunct1, rule_format, OF s2] .
  then have m2: "mode (interpolateAuth ?c2 ?ctx) = ModeApiKey"
    by auto
  have "map_of (buildHeaders [] ?c2 ?ctx False ''https://x.test'')
          (if False then ''X-GraphIt-Header-'' @ ''X-Key'' else ''X-Key'') = Some ''ann''"
    using buildAuthHeader_requires_credentials [of ?c2 ?ctx,
            THEN conjunct2, THEN conjunct2, THEN conjunct2, THEN conjunct2, THEN conjunct2,
            rule_format, OF s2] .
  then have p2: "map_of (buildHeaders [] ?c2 ?ctx False ''https://x.test'') ''X-Key'' = Some ''ann''"
    by simp
  from a1 have a1': "\<forall>v. (''Authorization'', v) \<notin> set (buildHeaders ?hs ?c1 ?ctx False ''https://x.test'')"
    by blast
  from a3 have a3': "\<forall>v. (''Authorization'', v)
              \<notin> set (fr_headers (hd (snd (executeRequest sample_platform ?opts))))"
    by blast
  from calls have len: "length (snd (executeRequest sample_platform ?opts)) = 1" by blast
  from n1 e1 a1' len a3' s2 m2 p2 show ?thesis by (intro conjI)
qed

subsection \<open>The choice of the encoding\<close>

lemma upload_by_GET_calls:
  "snd (executeRequest sample_platform upload_by_GET) =
     [\<lparr>fr_url = ''https://x.test/graphql?query=%7B+me+%7B+id+%7D+%7D'', fr_method = ''GET'',
       fr_headers = [], fr_body = None, fr_abort_after = 30000\<rparr>]"
proof -
  have q: "get_query_url upload_by_GET ''{}''
             \<lparr>url_base = ''https://x.test/graphql'', searchParams = [], url_hash = []\<rparr>
           = Inr \<lparr>url_base = ''https://x.test/graphql'',
                  searchParams = [(''query'', ''{ me { id } }'')], url_hash = []\<rparr>"
    by (simp add: get_query_url_def upload_by_GET_def sample_options_def searchParams_set_def
          buildApiKeyQueryParam_def interpolateAuth_def no_auth_def)
  have s: "url_toString \<lparr>url_base = ''https://x.test/graphql'',
                  searchParams = [(''query'', ''{ me { id } }'')], url_hash = []\<rparr>
           = ''https://x.test/graphql?query=%7B+me+%7B+id+%7D+%7D''"
    by (simp add: url_toString_def sample_query_encoded)
      (simp add: form_encode_def form_encode_unit_def is_alnum_def)
  have "snd (sendRequest sample_platform upload_by_GET) =
     [\<lparr>fr_url = ''https://x.test/graphql?query=%7B+me+%7B+id+%7D+%7D'', fr_method = ''GET'',
       fr_headers = [], fr_body = None, fr_abort_after = 30000\<rparr>]"
    unfolding sendRequest_def executeGetRequest_def isValidUrl_def do_fetch_def Let_def
    using q s
    by (simp add: upload_by_GET_def sample_options_def sample_platform_def sample_endpoint
          sample_variables sample_url sample_headers)
  then show ?thesis by (simp add: executeRequest_calls)
qed

lemma multipart_loop_files:
  "multipart_loop ms (fm, fl, pv) = Inr (fm', fl', pv') \<Longrightarrow> fl' = fl @ List.map_filter fm_file ms"
proof (induction ms arbitrary: fm fl pv)
  case Nil
  then show ?case by (simp add: List.map_filter_simps)
next
  case (Cons m ms)
  show ?case
  proof (cases "fm_file m")
    case None
    with Cons show ?thesis by (simp add: List.map_filter_simps)
  next
    case (Some f)
    with Cons.prems obtain pv1 where
      "multipart_loop ms (AList.update (nat_digits (length fl)) [''variables.'' @ variablePath m] fm,
         fl @ [f], pv1) = Inr (fm', fl', pv')"
      by (auto simp: Let_def split: sum.splits)
    from Cons.IH [OF this] Some show ?thesis by (simp add: List.map_filter_simps)
  qed
qed

lemma executeMultipartRequest_calls:
  assumes "req \<in> set (snd (executeMultipartRequest w ep opts hdrs tmo))"
  shows "fr_url req = ep \<and> fr_method req = ''POST''
     \<and> fr_headers req = AList.delete ''Content-Type'' hdrs
     \<and> (\<exists>ops mp. fr_body req = Some (FormData
           ([(''operations'', TextPart ops), (''map'', TextPart mp)]
            @ map (\<lambda>i. (nat_digits i, FilePart (List.map_filter fm_file (fileMappings opts) ! i)))
                [0 ..< length (List.map_filter fm_file (fileMappings opts))])))"
proof -
  let ?vars = "interpolateString (opt_variables opts) (context opts)"
  let ?p0 = "if ?vars \<noteq> [] then (case JSON_parse w ?vars of Inr v \<Rightarrow> v | Inl _ \<Rightarrow> JObj []) else JObj []"
  show ?thesis
  proof (cases "multipart_loop (fileMappings opts) ([], [], ?p0)")
    case (Inl e)
    with assms show ?thesis by (simp add: executeMultipartRequest_def Let_def)
  next
    case (Inr st)
    obtain fm fl pv where st: "st = (fm, fl, pv)" by (cases st)
    from multipart_loop_files [OF Inr [unfolded st]]
    have fl: "fl = List.map_filter fm_file (fileMappings opts)" by simp
    from assms Inr st show ?thesis
      by (simp add: executeMultipartRequest_def Let_def do_fetch_def fl)
  qed
qed

lemma executeMultipartRequest_length:
  "length (snd (executeMultipartRequest w ep opts hdrs tmo)) \<le> Suc 0"
  by (simp add: executeMultipartRequest_def Let_def do_fetch_def split: sum.splits prod.splits)

lemma executeGetRequest_calls:
  assumes "req \<in> set (snd (executeGetRequest w ep opts hdrs tmo))"
  shows "fr_method req = (if useProxy opts then ''POST'' else ''GET'')
     \<and> (\<forall>parts. fr_body req \<noteq> Some (FormData parts))
     \<and> (\<not> useProxy opts \<longrightarrow> fr_body req = None)"
  using assms
  by (auto simp: executeGetRequest_def Let_def do_fetch_def split: sum.splits if_splits)

lemma executeGetRequest_length:
  "length (snd (executeGetRequest w ep opts hdrs tmo)) \<le> Suc 0"
  by (simp add: executeGetRequest_def Let_def do_fetch_def split: sum.splits)

lemma executePostRequest_length:
  "length (snd (executePostRequest w ep opts hdrs p tmo)) = Suc 0"
  by (simp add: executePostRequest_def Let_def do_fetch_def)

lemma sendRequest_length: "length (snd (sendRequest w opts)) \<le> Suc 0"
  by (simp add: sendRequest_def Let_def executeGetRequest_length executeMultipartRequest_length
        executePostRequest_length)

lemma delete_removes_key: "k \<notin> fst ` set (AList.delete k al)"
  by (rule delete_notin_dom)

lemma upload_by_PUT_calls:
  "\<exists>req. snd (executeRequest sample_platform upload_by_PUT) = [req]"
proof -
  have loop: "multipart_loop [upload_mapping] ([], [], JObj [])
            = Inr ([(''0'', [''variables.file''])], [File ''a.png''], JObj [(''file'', JNull)])"
    by (simp add: upload_mapping_def setNestedValue_def assign_property_def Let_def
          nat_digits.simps hex_digit_def)
  have bound: "fm_file upload_mapping \<noteq> None"
    by (simp add: upload_mapping_def)
  have "\<exists>req. snd (sendRequest sample_platform upload_by_PUT) = [req]"
    unfolding sendRequest_def executeMultipartRequest_def isValidUrl_def do_fetch_def Let_def
    using bound
    by (simp add: upload_by_PUT_def sample_options_def sample_platform_def sample_endpoint
          sample_variables sample_url sample_JSON_parse_def loop
          del: multipart_loop.simps)
  then show ?thesis by (simp add: executeRequest_calls)
qed

text \<open>
  C1, as stated, fails: with a bound file and method \<open>GET\<close> the request that is sent is a
  query-string \<open>GET\<close> without body.
\<close>

theorem files_select_multipart_unless_GET_counterexample:
  "map fm_file (fileMappings upload_by_GET) = [Some (File ''a.png'')]
   \<and> httpMethod upload_by_GET = GET
   \<and> snd (executeRequest sample_platform upload_by_GET) =
       [\<lparr>fr_url = ''https://x.test/graphql?query=%7B+me+%7B+id+%7D+%7D'', fr_method = ''GET'',
         fr_headers = [], fr_body = None, fr_abort_after = 30000\<rparr>]"
  by (simp add: upload_by_GET_calls)
    (simp add: upload_by_GET_def upload_mapping_def sample_options_def)

text \<open>
  C1, amended. Let some file mapping have a bound file. \<open>executeRequest\<close> sends at most one
  request. If the method is not \<open>GET\<close>, that request is a \<open>POST\<close> to the interpolated
  endpoint without \<open>Content-Type\<close> header whose body is form data with the parts
  \<open>operations\<close>, \<open>map\<close> and then the bound files in order, the \<open>i\<close>-th under the key \<open>i\<close>.
  If the method is \<open>GET\<close>, the GET path is taken all the same: the request never has a
  form-data body, and outside proxy mode it is a \<open>GET\<close> without body.
\<close>

theorem files_select_multipart_unless_GET:
  fixes w opts
  defines "ep \<equiv> interpolateString (endpoint opts) (context opts)"
    and "files \<equiv> List.map_filter fm_file (fileMappings opts)"
    and "calls \<equiv> snd (executeRequest w opts)"
  assumes hasFiles: "list_ex (\<lambda>m. fm_file m \<noteq> None) (fileMappings opts)"
  shows "length calls \<le> 1
     \<and> (httpMethod opts \<noteq> GET \<longrightarrow>
          (\<forall>req \<in> set calls.
             fr_url req = ep \<and> fr_method req = ''POST''
             \<and> ''Content-Type'' \<notin> fst ` set (fr_headers req)
             \<and> (\<exists>ops mp. fr_body req = Some (FormData
                   ([(''operations'', TextPart ops), (''map'', TextPart mp)]
                    @ map (\<lambda>i. (nat_digits i, FilePart (files ! i))) [0 ..< length files])))))
     \<and> (httpMethod opts = GET \<longrightarrow>
          (\<forall>req \<in> set calls.
             fr_method req = (if useProxy opts then ''POST'' else ''GET'')
             \<and> (\<forall>parts. fr_body req \<noteq> Some (FormData parts))
             \<and> (\<not> useProxy opts \<longrightarrow> fr_body req = None)))"
proof -
  let ?hdrs = "buildHeaders (opt_headers opts) (auth opts) (context opts) (useProxy opts) ep"
  have len: "length calls \<le> 1"
    unfolding calls_def using sendRequest_length [of w opts] by (simp add: executeRequest_calls)
  have multipart: "fr_url req = ep \<and> fr_method req = ''POST''
             \<and> ''Content-Type'' \<notin> fst ` set (fr_headers req)
             \<and> (\<exists>ops mp. fr_body req = Some (FormData
                   ([(''operations'', TextPart ops), (''map'', TextPart mp)]
                    @ map (\<lambda>i. (nat_digits i, FilePart (files ! i))) [0 ..< length files])))"
    if m: "httpMethod opts \<noteq> GET" and r: "req \<in> set calls" for req
  proof -
    from r m hasFiles have "req \<in> set (snd (executeMultipartRequest w ep opts ?hdrs (timeout opts)))"
      unfolding calls_def executeRequest_calls sendRequest_def Let_def ep_def
      by (simp split: if_splits)
    from executeMultipartRequest_calls [OF this] show ?thesis
      unfolding files_def by (simp add: delete_removes_key)
  qed
  have query: "fr_method req = (if useProxy opts then ''POST'' else ''GET'')
             \<and> (\<forall>parts. fr_body req \<noteq> Some (FormData parts))
             \<and> (\<not> useProxy opts \<longrightarrow> fr_body req = None)"
    if m: "httpMethod opts = GET" and r: "req \<in> set calls" for req
  proof -
    from r m have "req \<in> set (snd (executeGetRequest w ep opts ?hdrs (timeout opts)))"
      unfolding calls_def executeRequest_calls sendRequest_def Let_def ep_def
      by (simp split: if_splits)
    from executeGetRequest_calls [OF this] show ?thesis .
  qed
  from len multipart query show ?thesis by blast
qed

theorem files_select_multipart_unless_GET_witness:
  "list_ex (\<lambda>m. fm_file m \<noteq> None) (fileMappings upload_by_PUT)
   \<and> httpMethod upload_by_PUT \<noteq> GET
   \<and> map fr_method (snd (executeRequest sample_platform upload_by_PUT)) = [''POST'']
   \<and> map fr_url (snd (executeRequest sample_platform upload_by_PUT)) = [''https://x.test/graphql'']
   \<and> list_ex (\<lambda>m. fm_file m \<noteq> None) (fileMappings upload_by_GET)
   \<and> httpMethod upload_by_GET = GET
   \<and> map fr_body (snd (executeRequest sample_platform upload_by_GET)) = [None]"
proof -
  have f1: "list_ex (\<lambda>m. fm_file m \<noteq> None) (fileMappings upload_by_PUT)"
    and m1: "httpMethod upload_by_PUT \<noteq> GET"
    and e1: "interpolateString (endpoint upload_by_PUT) (context upload_by_PUT) = ''https://x.test/graphql''"
    by (simp_all add: upload_by_PUT_def upload_mapping_def sample_options_def sample_endpoint)
  have f2: "list_ex (\<lambda>m. fm_file m \<noteq> None) (fileMappings upload_by_GET)"
    and m2: "httpMethod upload_by_GET = GET" and p2: "\<not> useProxy upload_by_GET"
    by (simp_all add: upload_by_GET_def upload_mapping_def sample_options_def)
  from upload_by_PUT_calls obtain req where
    c1: "snd (executeRequest sample_platform upload_by_PUT) = [req]" by blast
  then have r1: "req \<in> set (snd (executeRequest sample_platform upload_by_PUT))" by simp
  from files_select_multipart_unless_GET [OF f1, of sample_platform,
         THEN conjunct2, THEN conjunct1, rule_format, OF m1 r1]
  have "fr_url req = ''https://x.test/graphql'' \<and> fr_method req = ''POST''"
    by (simp add: e1)
  with c1 have k1: "map fr_method (snd (executeRequest sample_platform upload_by_PUT)) = [''POST'']"
    "map fr_url (snd (executeRequest sample_platform upload_by_PUT)) = [''https://x.test/graphql'']"
    by simp_all
  let ?g = "\<lparr>fr_url = ''https://x.test/graphql?query=%7B+me+%7B+id+%7D+%7D'', fr_method = ''GET'',
         fr_headers = [], fr_body = None, fr_abort_after = 30000\<rparr>"
  have r2: "?g \<in> set (snd (executeRequest sample_platform upload_by_GET))"
    by (simp add: upload_by_GET_calls)
  from files_select_multipart_unless_GET [OF f2, of sample_platform,
         THEN conjunct2, THEN conjunct2, rule_format, OF m2 r2]
  have "fr_body ?g = None" using p2 by blast
  then have k2: "map fr_body (snd (executeRequest sample_platform upload_by_GET)) = [None]"
    by (simp add: upload_by_GET_calls)
  from f1 m1 k1 f2 m2 k2 show ?thesis by (intro conjI)
qed

section \<open>Properties of the subscription manager\<close>








lemma tracked_None [simp]: "tracked k None cls dsp"
  by (simp add: tracked_def)















section \<open>Properties of the script sandbox\<close>

lemma never_returning_script:
  "ends (eng msg) = NeverReturns \<Longrightarrow> await_worker eng msg = None"
  by (simp add: await_worker_def onmessage_def executeScript_def Let_def)

lemma sandbox_call_keeps [simp]:
  "timers (sandbox_call st c) = timers st"
  "posted (sandbox_call st c) = posted st"
  "clock (sandbox_call st c) = clock st"
  by (cases c; simp add: sandbox_call_def)+

lemma sandbox_calls_keep [simp]:
  "timers (foldl sandbox_call st cs) = timers st"
  "posted (foldl sandbox_call st cs) = posted st"
  "clock (foldl sandbox_call st cs) = clock st"
  by (induction cs arbitrary: st) simp_all

lemma onmessage_returns:
  "ends (eng msg) = Returns \<Longrightarrow>
     \<exists>st. onmessage eng msg new_worker = Some st \<and> timers st = []
          \<and> posted st = [snapshot st True None]"
  by (simp add: onmessage_def executeScript_def Let_def clearTimeout_def postMessage_def
        snapshot_def new_worker_def)

lemma onmessage_throws:
  "ends (eng msg) = Throws e \<Longrightarrow>
     \<exists>st. onmessage eng msg new_worker = Some st \<and> timers st = []
          \<and> posted st = [snapshot st False (Some (case e of Error m \<Rightarrow> m | Thrown v \<Rightarrow> String v))]"
  by (simp add: onmessage_def executeScript_def Let_def clearTimeout_def postMessage_def
        snapshot_def new_worker_def)

lemma run_timers_none: "timers st = [] \<Longrightarrow> posted (run_timers st) = posted st"
  by (simp add: run_timers_def)

lemma returning_script_succeeds:
  assumes "ends (eng msg) = Returns"
  shows "\<exists>r. await_worker eng msg = Some r \<and> success r \<and> script_error r = None"
proof -
  from onmessage_returns [of eng msg, OF assms] obtain st where
    st: "onmessage eng msg new_worker = Some st" "timers st = []"
      "posted st = [snapshot st True None]" by blast
  then have "await_worker eng msg = Some (snapshot st True None)"
    by (simp add: await_worker_def run_timers_none)
  then show ?thesis by (simp add: snapshot_def)
qed

lemma throwing_script_fails:
  assumes "ends (eng msg) = Throws e"
  shows "\<exists>r. await_worker eng msg = Some r \<and> \<not> success r
           \<and> script_error r = Some (case e of Error m \<Rightarrow> m | Thrown v \<Rightarrow> String v)"
proof -
  from onmessage_throws [of eng msg e, OF assms] obtain st where
    st: "onmessage eng msg new_worker = Some st" "timers st = []"
      "posted st = [snapshot st False (Some (case e of Error m \<Rightarrow> m | Thrown v \<Rightarrow> String v))]"
    by blast
  then have "await_worker eng msg
               = Some (snapshot st False (Some (case e of Error m \<Rightarrow> m | Thrown v \<Rightarrow> String v)))"
    by (simp add: await_worker_def run_timers_none)
  then show ?thesis by (simp add: snapshot_def)
qed

lemma trim_loop: "trim ''log(1); while (true) {}'' = ''log(1); while (true) {}''"
  by (simp add: trim_def is_js_whitespace_def)

lemma trim_slow: "trim ''log(1); for (let i = 0; i < 1e10; i++) {}'' = ''log(1); for (let i = 0; i < 1e10; i++) {}''"
  by (simp add: trim_def is_js_whitespace_def)

text \<open>
  C6. What the code does for scripts that outlast the timeout. The script runs inside the
  worker's message handler, so the timeout callback cannot run before the script has
  returned, and then \<open>clearTimeout\<close> has cancelled it. A script that never returns (here
  after logging once, timeout 5000 ms) leaves the promise of \<open>runPreRequestScript\<close> and of
  \<open>runPostRequestScript\<close> pending for ever; a script that returns after 9000 ms is
  reported as a success.
\<close>

theorem script_timeout_never_fires:
  "runPreRequestScript sample_platform sample_engine ''log(1); while (true) {}'' [] ''{}'' [] 5000 = None
   \<and> runPostRequestScript sample_platform sample_engine ''log(1); while (true) {}'' [] ''{}'' [] JNull 5000 = None
   \<and> runPreRequestScript sample_platform sample_engine
        ''log(1); for (let i = 0; i < 1e10; i++) {}'' [] ''{}'' [] 5000
       = Some \<lparr>success = True, logs = [''1''], envOverrides = [], varsOverrides = [],
               headersOverrides = [], script_error = None\<rparr>"
proof (intro conjI)
  show "runPreRequestScript sample_platform sample_engine ''log(1); while (true) {}'' [] ''{}'' [] 5000 = None"
    by (simp add: runPreRequestScript_def trim_loop script_inputs_def never_returning_script
          sample_engine_def)
  show "runPostRequestScript sample_platform sample_engine ''log(1); while (true) {}'' [] ''{}'' [] JNull 5000 = None"
    by (simp add: runPostRequestScript_def trim_loop script_inputs_def never_returning_script
          sample_engine_def)
  show "runPreRequestScript sample_platform sample_engine
        ''log(1); for (let i = 0; i < 1e10; i++) {}'' [] ''{}'' [] 5000
       = Some \<lparr>success = True, logs = [''1''], envOverrides = [], varsOverrides = [],
               headersOverrides = [], script_error = None\<rparr>"
    by (simp add: runPreRequestScript_def trim_slow script_inputs_def sample_engine_def
          await_worker_def onmessage_def executeScript_def Let_def run_timers_def
          clearTimeout_def postMessage_def snapshot_def new_worker_def sandbox_call_def
          typeof_object_def int_text_def nat_digits.simps hex_digit_def)
qed

end
